theory Spec2Isabelle
  imports Main
begin

section \<open>Python library functions used by the Braket executor\<close>

text \<open>
  \<^verbatim>\<open>str(n)\<close> for a Python \<^verbatim>\<open>int\<close>, which is what an f-string inserts for
  \<^verbatim>\<open>{node_id}\<close>: decimal digits without leading zeros, a leading minus sign for a
  negative number.
\<close>

definition digit_char :: "nat \<Rightarrow> char" where
  "digit_char d = char_of (48 + d)"

fun str_nat :: "nat \<Rightarrow> string" where
  "str_nat n = (if n < 10 then [digit_char n] else str_nat (n div 10) @ [digit_char (n mod 10)])"

declare str_nat.simps [simp del]

definition str_int :: "int \<Rightarrow> string" where
  "str_int i = (if i < 0 then CHR ''-'' # str_nat (nat (- i)) else str_nat (nat i))"

text \<open>\<^verbatim>\<open>os.path.join(a, b)\<close> and \<^verbatim>\<open>os.path.basename(p)\<close> on POSIX paths.\<close>

definition os_path_join :: "string \<Rightarrow> string \<Rightarrow> string" where
  "os_path_join a b =
     (if b \<noteq> [] \<and> hd b = CHR ''/'' then b
      else if a = [] \<or> last a = CHR ''/'' then a @ b
      else a @ ''/'' @ b)"

definition os_path_basename :: "string \<Rightarrow> string" where
  "os_path_basename p = rev (takeWhile (\<lambda>c. c \<noteq> CHR ''/'') (rev p))"

text \<open>
  \<^verbatim>\<open>s.replace(old, new)\<close>: every non-overlapping occurrence of \<open>old\<close>, scanning from
  the left. The executor only calls it with a non-empty \<open>old\<close>; for an empty one Python
  puts \<open>new\<close> around every character.
\<close>

function str_replace :: "string \<Rightarrow> string \<Rightarrow> string \<Rightarrow> string" where
  "str_replace old new s =
     (if old = [] then new @ concat (map (\<lambda>c. c # new) s)
      else if s = [] then []
      else if take (length old) s = old then new @ str_replace old new (drop (length old) s)
      else hd s # str_replace old new (tl s))"
  by pat_completeness auto
termination
  by (relation "measure (\<lambda>(old, new, s). length s)") auto

declare str_replace.simps [simp del]

text \<open>
  \<^verbatim>\<open>sep.join(xs)\<close>, and \<^verbatim>\<open>str\<close> of a list and of a dictionary, which print the
  \<^verbatim>\<open>repr\<close> of their elements; a dictionary is the list of its items in insertion order.
\<close>

fun str_join :: "string \<Rightarrow> string list \<Rightarrow> string" where
  "str_join sep [] = []"
| "str_join sep [x] = x"
| "str_join sep (x # y # ys) = x @ sep @ str_join sep (y # ys)"

definition py_str_list :: "('v \<Rightarrow> string) \<Rightarrow> 'v list \<Rightarrow> string" where
  "py_str_list repr xs = ''['' @ str_join '', '' (map repr xs) @ '']''"

definition py_str_dict :: "('v \<Rightarrow> string) \<Rightarrow> ('v \<times> 'v) list \<Rightarrow> string" where
  "py_str_dict repr items =
     ''{'' @ str_join '', '' (map (\<lambda>(k, v). repr k @ '': '' @ repr v) items) @ ''}''"

section \<open>The executor, its errors and the world it runs in\<close>

text \<open>The attributes of \<^verbatim>\<open>BraketExecutor\<close>; \<open>cache_dir\<close> is the one of \<^verbatim>\<open>BaseExecutor\<close>.\<close>

record executor =
  credentials :: string
  profile :: string
  s3_bucket_name :: string
  ecr_repo_name :: string
  braket_job_execution_role_name :: string
  quantum_device :: string
  classical_device :: string
  storage :: int
  time_limit :: int
  poll_freq :: int
  cache_dir :: string

text \<open>
  Exceptions as values. \<open>Exception msg\<close> is the plain \<^verbatim>\<open>raise Exception(msg)\<close> of
  \<^verbatim>\<open>_poll_braket_job\<close>; \<open>ValueError\<close> and \<open>OverflowError\<close> are what \<^verbatim>\<open>time.sleep\<close>
  and the assignment to \<^verbatim>\<open>os.environ\<close> raise for an argument they refuse;
  \<open>ClientError\<close> stands for whatever a boto3 or docker client call raises;
  \<open>StopIteration\<close> is a scripted job service that has no answer left.
\<close>

datatype error =
    Exception string
  | KeyError string
  | IndexError
  | ValueError string
  | OverflowError string
  | FileNotFoundError string
  | FileExistsError string
  | UnicodeDecodeError
  | PicklingError
  | UnpicklingError
  | Base64Error
  | ClientError string
  | StopIteration

text \<open>The name of the Python class of each exception.\<close>

fun error_class :: "error \<Rightarrow> string" where
  "error_class (Exception m) = ''Exception''"
| "error_class (KeyError k) = ''KeyError''"
| "error_class IndexError = ''IndexError''"
| "error_class (ValueError m) = ''ValueError''"
| "error_class (OverflowError m) = ''OverflowError''"
| "error_class (FileNotFoundError p) = ''FileNotFoundError''"
| "error_class (FileExistsError p) = ''FileExistsError''"
| "error_class UnicodeDecodeError = ''UnicodeDecodeError''"
| "error_class PicklingError = ''PicklingError''"
| "error_class UnpicklingError = ''UnpicklingError''"
| "error_class Base64Error = ''binascii.Error''"
| "error_class (ClientError m) = ''ClientError''"
| "error_class StopIteration = ''StopIteration''"

text \<open>The keyword arguments of \<^verbatim>\<open>braket.create_job\<close>.\<close>

record job_spec =
  containerImage_uri :: string
  checkpointConfig_s3Uri :: string
  deviceConfig_device :: string
  instanceType :: string
  volumeSizeInGb :: int
  jobName :: string
  outputDataConfig_s3Path :: string
  roleArn :: string
  maxRuntimeInSeconds :: int

text \<open>The answer of \<^verbatim>\<open>braket.get_job\<close>, as far as the executor reads it.\<close>

record job =
  status :: string
  failureReason :: "string option"

text \<open>
  Every call whose outcome the process does not decide: the calls to the services
  (making the client and calling it count as one call), the calls that need a directory
  of the file system (\<^verbatim>\<open>mkdir\<close>, \<^verbatim>\<open>NamedTemporaryFile\<close> with its \<open>dir\<close> and \<open>suffix\<close>,
  \<^verbatim>\<open>shutil.copyfile\<close>), the sleep and the warning that \<^verbatim>\<open>execute\<close> logs, with their
  arguments, as the world records them.
\<close>

datatype call =
    StsGetCallerIdentity
  | AppLogWarning "(string \<times> string) list"
  | Mkdir string
  | NamedTemporaryFile string string
  | ShutilCopyfile string string
  | S3UploadFile string string string
  | S3DownloadFile string string string
  | DockerBuild string string string
  | EcrGetAuthorizationToken
  | DockerLogin string string string
  | DockerImageTag string string
  | DockerPush string string
  | BraketCreateJob job_spec
  | BraketGetJob string
  | TimeSleep int
  | LogsDescribeLogStreams string string
  | LogsGetLogEvents string string

text \<open>
  An image in the local docker daemon: the text of the Dockerfile it was built from and
  the files of the build context, as they were when it was built.
\<close>

record image =
  image_dockerfile :: string
  image_context :: "string \<rightharpoonup> string"

text \<open>
  The world: the process environment, the local files, the objects in S3, the images that
  docker has built, the calls made so far (oldest first), and what the outside answers.
  \<open>faults\<close> says which calls raise, \<open>get_job_answers\<close> are the successive answers of
  \<^verbatim>\<open>braket.get_job\<close> (as the \<^verbatim>\<open>side_effect\<close> list of a mock), \<open>tmp_stem n\<close> is
  the random part of the \<open>n\<close>-th name that \<^verbatim>\<open>tempfile\<close> hands out. The directories
  of the file system are not part of the world: a call that needs one raises when
  \<open>faults\<close> says so. Paths are taken as they are written; the cache directory is meant to
  be an absolute path, as its default is.
\<close>

record world =
  environ :: "string \<rightharpoonup> string"
  files :: "string \<rightharpoonup> string"
  s3_objects :: "string \<times> string \<rightharpoonup> string"
  docker_images :: "string \<rightharpoonup> image"
  calls :: "call list"
  faults :: "call \<Rightarrow> error option"
  tmp_stem :: "nat \<Rightarrow> string"
  tmp_count :: nat
  sts_identity :: "(string \<times> string) list"
  ecr_authorizationData :: "(string \<times> string) list"
  create_job_answer :: "(string \<times> string) list"
  get_job_answers :: "(error + job) list"
  log_streams :: "string \<Rightarrow> string \<Rightarrow> string list"
  log_events :: "string \<Rightarrow> string \<Rightarrow> string list"

text \<open>
  The library functions the executor treats as opaque: cloudpickle on the callable and
  on the result, base64 decoding, decoding bytes as UTF-8, and \<^verbatim>\<open>repr\<close> of the values
  that occur in the arguments of the task. \<open>None\<close> is the call raising.
\<close>

record ('f, 'r, 'v) libs =
  pickle_dumps :: "'f \<Rightarrow> string option"
  pickle_loads :: "string \<Rightarrow> 'r option"
  b64decode :: "string \<Rightarrow> string option"
  utf8_decode :: "string \<Rightarrow> string option"
  py_repr :: "'v \<Rightarrow> string"

subsection \<open>Sequencing\<close>

type_synonym 'a prog = "world \<Rightarrow> (error + 'a) \<times> world"

definition ret :: "'a \<Rightarrow> 'a prog" where
  "ret x = (\<lambda>w. (Inr x, w))"

definition raise :: "error \<Rightarrow> 'a prog" where
  "raise e = (\<lambda>w. (Inl e, w))"

definition andthen :: "'a prog \<Rightarrow> ('a \<Rightarrow> 'b prog) \<Rightarrow> 'b prog" where
  "andthen m f = (\<lambda>w. case m w of (Inl e, w') \<Rightarrow> (Inl e, w') | (Inr x, w') \<Rightarrow> f x w')"

text \<open>A call is logged, then raises if the world says so.\<close>

definition external :: "call \<Rightarrow> unit prog" where
  "external c = (\<lambda>w.
     let w' = w\<lparr>calls := calls w @ [c]\<rparr>
     in case faults w c of Some e \<Rightarrow> (Inl e, w') | None \<Rightarrow> (Inr (), w'))"

section \<open>Polling\<close>

definition braket_get_job :: "string \<Rightarrow> job prog" where
  "braket_get_job job_arn = (\<lambda>w.
     let w' = w\<lparr>calls := calls w @ [BraketGetJob job_arn]\<rparr>
     in case get_job_answers w of
          [] \<Rightarrow> (Inl StopIteration, w')
        | a # rest \<Rightarrow> (a, w'\<lparr>get_job_answers := rest\<rparr>))"

text \<open>
  \<^verbatim>\<open>time.sleep(secs)\<close> for an integer: it refuses a number of seconds that does not fit
  into 64 bits as nanoseconds, and a negative one.
\<close>

definition time_sleep :: "int \<Rightarrow> unit prog" where
  "time_sleep secs = (\<lambda>w.
     let w' = w\<lparr>calls := calls w @ [TimeSleep secs]\<rparr>
     in if secs < - 9223372036 \<or> 9223372036 < secs
        then (Inl (OverflowError ''timestamp too large to convert to C _PyTime_t''), w')
        else if secs < 0 then (Inl (ValueError ''sleep length must be non-negative''), w')
        else (Inr (), w'))"

definition get_status :: "string \<Rightarrow> string prog" where
  "get_status job_arn = andthen (braket_get_job job_arn) (\<lambda>job. ret (status job))"

text \<open>
  The \<^verbatim>\<open>while status not in [...]\<close> loop of \<^verbatim>\<open>_poll_braket_job\<close>, from the status
  the first query returned. Each round takes one scripted answer, so the loop ends when
  the script does.
\<close>

function poll_while :: "executor \<Rightarrow> string \<Rightarrow> string \<Rightarrow> string prog" where
  "poll_while self job_arn st w =
     (if st \<in> set [''COMPLETED'', ''FAILED'', ''CANCELLED''] then (Inr st, w)
      else case time_sleep (poll_freq self) w of
             (Inl e, w1) \<Rightarrow> (Inl e, w1)
           | (Inr u, w1) \<Rightarrow>
               (case get_status job_arn w1 of
                  (Inl e, w2) \<Rightarrow> (Inl e, w2)
                | (Inr st', w2) \<Rightarrow> poll_while self job_arn st' w2))"
  by pat_completeness auto
termination
  apply (relation "measure (\<lambda>(self, job_arn, st, w). length (get_job_answers w))")
   apply simp
  apply (auto simp: time_sleep_def get_status_def andthen_def braket_get_job_def ret_def Let_def
              split: list.splits sum.splits if_splits)
  done

declare poll_while.simps [simp del]

definition poll_braket_job :: "executor \<Rightarrow> string \<Rightarrow> unit prog" where
  "poll_braket_job self job_arn =
     andthen (get_status job_arn) (\<lambda>st0.
     andthen (poll_while self job_arn st0) (\<lambda>st.
       if st = ''FAILED''
       then andthen (braket_get_job job_arn) (\<lambda>j.
              case failureReason j of
                None \<Rightarrow> raise (KeyError ''failureReason'')
              | Some failure_reason \<Rightarrow> raise (Exception failure_reason))
       else ret ()))"

section \<open>Local files, temporary files, S3 and docker\<close>

definition write_file :: "string \<Rightarrow> string \<Rightarrow> unit prog" where
  "write_file path content = (\<lambda>w. (Inr (), w\<lparr>files := (files w)(path \<mapsto> content)\<rparr>))"

definition open_read :: "string \<Rightarrow> string prog" where
  "open_read path = (\<lambda>w.
     case files w path of
       None \<Rightarrow> (Inl (FileNotFoundError path), w)
     | Some content \<Rightarrow> (Inr content, w))"

definition os_remove :: "string \<Rightarrow> unit prog" where
  "os_remove path = (\<lambda>w.
     case files w path of
       None \<Rightarrow> (Inl (FileNotFoundError path), w)
     | Some content \<Rightarrow> (Inr (), w\<lparr>files := (files w)(path := None)\<rparr>))"

text \<open>
  \<^verbatim>\<open>shutil.copyfile(src, dst)\<close> raises when the world says so (the directory of \<open>dst\<close>
  is missing, say) and when \<open>src\<close> is missing.
\<close>

definition shutil_copyfile :: "string \<Rightarrow> string \<Rightarrow> unit prog" where
  "shutil_copyfile src dst =
     andthen (external (ShutilCopyfile src dst)) (\<lambda>_.
     andthen (open_read src) (\<lambda>content. write_file dst content))"

text \<open>The \<open>n\<close>-th name of \<^verbatim>\<open>tempfile\<close>: the prefix \<open>tmp\<close>, a random stem, the suffix.\<close>

definition tmp_name :: "world \<Rightarrow> nat \<Rightarrow> string \<Rightarrow> string \<Rightarrow> string" where
  "tmp_name w n dir suffix = os_path_join dir (''tmp'' @ tmp_stem w n @ suffix)"

text \<open>
  \<^verbatim>\<open>with tempfile.NamedTemporaryFile(dir=..., suffix=...) as f: body\<close>: a new empty file
  with a random name, which is deleted when the block is left, also by an exception.
  Creating it raises when the world says so (the directory is missing, say), and
  \<^verbatim>\<open>tempfile\<close> never hands out the name of a file that exists.
\<close>

definition with_named_temporary_file :: "string \<Rightarrow> string \<Rightarrow> (string \<Rightarrow> 'a prog) \<Rightarrow> 'a prog" where
  "with_named_temporary_file dir suffix body =
     andthen (external (NamedTemporaryFile dir suffix)) (\<lambda>_. (\<lambda>w.
       let name = tmp_name w (tmp_count w) dir suffix
       in if files w name \<noteq> None then (Inl (FileExistsError name), w)
          else (case body name
                       (w\<lparr>files := (files w)(name \<mapsto> []), tmp_count := Suc (tmp_count w)\<rparr>) of
                  (r, w2) \<Rightarrow> (r, w2\<lparr>files := (files w2)(name := None)\<rparr>))))"

text \<open>
  The name of the temporary file that holds the execution script in a
  \<^verbatim>\<open>_package_and_upload\<close> that starts in the world \<open>w\<close>: the second one it opens.
\<close>

abbreviation exec_script_file_name :: "world \<Rightarrow> executor \<Rightarrow> string" where
  "exec_script_file_name w self \<equiv> tmp_name w (Suc (tmp_count w)) (cache_dir self) ''.py''"

definition s3_upload_file :: "string \<Rightarrow> string \<Rightarrow> string \<Rightarrow> unit prog" where
  "s3_upload_file filename bucket key =
     andthen (external (S3UploadFile filename bucket key)) (\<lambda>_.
     andthen (open_read filename) (\<lambda>content.
       (\<lambda>w. (Inr (), w\<lparr>s3_objects := (s3_objects w)((bucket, key) \<mapsto> content)\<rparr>))))"

definition s3_download_file :: "string \<Rightarrow> string \<Rightarrow> string \<Rightarrow> unit prog" where
  "s3_download_file bucket key filename =
     andthen (external (S3DownloadFile bucket key filename)) (\<lambda>_.
       (\<lambda>w. case s3_objects w (bucket, key) of
               None \<Rightarrow> (Inl (ClientError ''404''), w)
             | Some content \<Rightarrow> write_file filename content w))"

text \<open>
  \<^verbatim>\<open>docker_client.images.build(path=..., dockerfile=..., tag=...)\<close>: docker reads the
  Dockerfile and is sent the files below \<open>path\<close>.
\<close>

definition docker_images_build :: "string \<Rightarrow> string \<Rightarrow> string \<Rightarrow> unit prog" where
  "docker_images_build path dockerfile tag =
     andthen (external (DockerBuild path dockerfile tag)) (\<lambda>_.
     andthen (open_read dockerfile) (\<lambda>text.
       (\<lambda>w. (Inr (), w\<lparr>docker_images := (docker_images w)(tag \<mapsto>
                 \<lparr>image_dockerfile = text,
                  image_context = (\<lambda>p. if take (length path) p = path then files w p
                                       else None)\<rparr>)\<rparr>))))"

section \<open>Retrieving the result\<close>

definition logs_describe_log_streams :: "string \<Rightarrow> string \<Rightarrow> string list prog" where
  "logs_describe_log_streams logGroupName logStreamNamePrefix =
     andthen (external (LogsDescribeLogStreams logGroupName logStreamNamePrefix)) (\<lambda>_.
       (\<lambda>w. (Inr (log_streams w logGroupName logStreamNamePrefix), w)))"

definition logs_get_log_events :: "string \<Rightarrow> string \<Rightarrow> string list prog" where
  "logs_get_log_events logGroupName logStreamName =
     andthen (external (LogsGetLogEvents logGroupName logStreamName)) (\<lambda>_.
       (\<lambda>w. (Inr (log_events w logGroupName logStreamName), w)))"

text \<open>
  \<^verbatim>\<open>_query_result\<close>. The log stream prefix is the string literal of the source, which
  has no \<^verbatim>\<open>f\<close> in front: its braces are not replaced. The answer of
  \<^verbatim>\<open>describe_log_streams\<close> is the list of the \<^verbatim>\<open>logStreamName\<close> entries, the one of
  \<^verbatim>\<open>get_log_events\<close> the list of the \<^verbatim>\<open>message\<close> entries.
\<close>

definition query_result ::
  "('f, 'r, 'v) libs \<Rightarrow> executor \<Rightarrow> string \<Rightarrow> string \<Rightarrow> string \<Rightarrow> string
     \<Rightarrow> ('r \<times> string \<times> string) prog" where
  "query_result libs self result_filename task_results_dir job_arn image_tag =
     (let local_result_filename = os_path_join task_results_dir result_filename in
      andthen (s3_download_file (s3_bucket_name self) result_filename local_result_filename) (\<lambda>_.
      andthen (open_read local_result_filename) (\<lambda>f.
      andthen (case pickle_loads libs f of None \<Rightarrow> raise UnpicklingError | Some r \<Rightarrow> ret r) (\<lambda>result.
      andthen (os_remove local_result_filename) (\<lambda>_.
      let log_group_name = ''/aws/braket/jobs'';
          log_stream_prefix = ''covalent-{image_tag}''
      in
      andthen (logs_describe_log_streams log_group_name log_stream_prefix) (\<lambda>logStreams.
      andthen (case logStreams of [] \<Rightarrow> raise IndexError | s # _ \<Rightarrow> ret s) (\<lambda>log_stream_name.
      andthen (logs_get_log_events log_group_name log_stream_name) (\<lambda>events.
      ret (result, foldl (\<lambda>log_events message. log_events @ message @ ''\<newline>'') [] events, [])))))))))"

section \<open>Packaging\<close>

text \<open>
  \<^verbatim>\<open>_format_exec_script\<close>; for the list \<open>args\<close> and the dictionary \<open>kwargs\<close>,
  \<^verbatim>\<open>format\<close> inserts \<^verbatim>\<open>str(args)\<close> and \<^verbatim>\<open>str(kwargs)\<close>.
\<close>

definition format_exec_script ::
  "('f, 'r, 'v) libs \<Rightarrow> executor \<Rightarrow> string \<Rightarrow> string \<Rightarrow> string \<Rightarrow> 'v list
     \<Rightarrow> ('v \<times> 'v) list \<Rightarrow> string" where
  \<open>format_exec_script libs self func_filename result_filename docker_working_dir args kwargs =
     ''\<newline>import os\<newline>import boto3\<newline>import cloudpickle as pickle\<newline>\<newline>''
     @ ''local_func_filename = os.path.join("'' @ docker_working_dir @ ''", "'' @ func_filename @ ''")\<newline>''
     @ ''local_result_filename = os.path.join("'' @ docker_working_dir @ ''", "'' @ result_filename @ ''")\<newline>\<newline>''
     @ ''s3 = boto3.client("s3")\<newline>''
     @ ''s3.download_file("'' @ s3_bucket_name self @ ''", "'' @ func_filename @ ''", local_func_filename)\<newline>\<newline>''
     @ ''with open(local_func_filename, "rb") as f:\<newline>    function = pickle.load(f)\<newline>\<newline>''
     @ ''result = function(*'' @ py_str_list (py_repr libs) args
     @ '', **'' @ py_str_dict (py_repr libs) kwargs @ '')\<newline>\<newline>''
     @ ''with open(local_result_filename, "wb") as f:\<newline>    pickle.dump(result, f)\<newline>\<newline>''
     @ ''s3.upload_file(local_result_filename, "'' @ s3_bucket_name self @ ''", "'' @ result_filename @ ''")\<newline>''\<close>

definition backslash :: string where
  "backslash = [CHR 0x5C]"

text \<open>\<^verbatim>\<open>_format_dockerfile\<close>.\<close>

definition format_dockerfile :: "string \<Rightarrow> string \<Rightarrow> string" where
  "format_dockerfile exec_script_filename docker_working_dir =
     (let func_basename = os_path_basename exec_script_filename in
      ''\<newline>FROM python:3.8-slim-buster\<newline>\<newline>''
      @ ''RUN apt-get update && apt-get install -y '' @ backslash @ ''\<newline>''
      @ ''  gcc '' @ backslash @ ''\<newline>''
      @ ''  && rm -rf /var/lib/apt/lists/*\<newline>''
      @ ''RUN pip install --no-cache-dir --use-feature=in-tree-build --upgrade '' @ backslash @ ''\<newline>''
      @ ''  amazon-braket-pennylane-plugin '' @ backslash @ ''\<newline>''
      @ ''  boto3==1.20.48 '' @ backslash @ ''\<newline>''
      @ ''  cloudpickle==2.0.0 '' @ backslash @ ''\<newline>''
      @ ''  pennylane==0.16.0 '' @ backslash @ ''\<newline>''
      @ ''  sagemaker-training\<newline>\<newline>''
      @ ''WORKDIR '' @ docker_working_dir @ ''\<newline>\<newline>''
      @ ''COPY '' @ func_basename @ '' '' @ docker_working_dir @ ''\<newline>\<newline>''
      @ ''ENV SAGEMAKER_PROGRAM '' @ func_basename @ ''\<newline>'')"

text \<open>
  \<^verbatim>\<open>_package_and_upload\<close>. \<open>function\<close> is the callable that
  \<^verbatim>\<open>function.get_deserialized()\<close> gives; \<open>ecr_authorizationData\<close> holds the
  \<^verbatim>\<open>authorizationToken\<close> and the \<^verbatim>\<open>proxyEndpoint\<close> of each entry.
\<close>

definition package_and_upload ::
  "('f, 'r, 'v) libs \<Rightarrow> executor \<Rightarrow> 'f \<Rightarrow> string \<Rightarrow> string \<Rightarrow> string \<Rightarrow> 'v list
     \<Rightarrow> ('v \<times> 'v) list \<Rightarrow> string prog" where
  "package_and_upload libs self function image_tag task_results_dir result_filename args kwargs =
     (let func_filename = ''func-'' @ image_tag @ ''.pkl'';
          docker_working_dir = ''/opt/ml/code''
      in
      andthen (with_named_temporary_file (cache_dir self) [] (\<lambda>function_file.
        andthen (case pickle_dumps libs function of
                   None \<Rightarrow> raise PicklingError
                 | Some pickled \<Rightarrow> write_file function_file pickled) (\<lambda>_.
        s3_upload_file function_file (s3_bucket_name self) func_filename))) (\<lambda>_.
      andthen (with_named_temporary_file (cache_dir self) ''.py'' (\<lambda>exec_script_file.
        with_named_temporary_file (cache_dir self) [] (\<lambda>dockerfile_file.
          let exec_script = format_exec_script libs self func_filename result_filename
                              docker_working_dir args kwargs
          in
          andthen (write_file exec_script_file exec_script) (\<lambda>_.
          let dockerfile = format_dockerfile exec_script_file docker_working_dir in
          andthen (write_file dockerfile_file dockerfile) (\<lambda>_.
          let local_dockerfile = os_path_join task_results_dir (''Dockerfile_'' @ image_tag) in
          andthen (shutil_copyfile dockerfile_file local_dockerfile) (\<lambda>_.
          docker_images_build (cache_dir self) dockerfile_file image_tag)))))) (\<lambda>_.
      andthen (external EcrGetAuthorizationToken) (\<lambda>_.
      andthen (\<lambda>w. case ecr_authorizationData w of
                       [] \<Rightarrow> (Inl IndexError, w)
                     | ecr_credentials # _ \<Rightarrow> (Inr ecr_credentials, w)) (\<lambda>ecr_credentials.
      let ecr_username = ''AWS'' in
      andthen (case b64decode libs (fst ecr_credentials) of
                 None \<Rightarrow> raise Base64Error
               | Some decoded \<Rightarrow>
                   (case utf8_decode libs (str_replace ''AWS:'' [] decoded) of
                      None \<Rightarrow> raise UnicodeDecodeError
                    | Some password \<Rightarrow> ret password)) (\<lambda>ecr_password.
      let ecr_registry = snd ecr_credentials;
          ecr_repo_uri = str_replace ''https://'' [] ecr_registry @ ''/'' @ ecr_repo_name self
                           @ '':'' @ image_tag
      in
      andthen (external (DockerLogin ecr_username ecr_password ecr_registry)) (\<lambda>_.
      andthen (external (DockerImageTag ecr_repo_uri image_tag)) (\<lambda>_.
      andthen (external (DockerPush ecr_repo_uri image_tag)) (\<lambda>_.
      ret ecr_repo_uri)))))))))"

section \<open>The pipeline\<close>

text \<open>\<^verbatim>\<open>image_tag = f"{dispatch_id}-{node_id}"\<close> of \<^verbatim>\<open>execute\<close>.\<close>

definition image_tag_of :: "string \<Rightarrow> int \<Rightarrow> string" where
  "image_tag_of dispatch_id node_id = dispatch_id @ ''-'' @ str_int node_id"

definition sts_get_caller_identity :: "(string \<times> string) list prog" where
  "sts_get_caller_identity =
     andthen (external StsGetCallerIdentity) (\<lambda>_. (\<lambda>w. (Inr (sts_identity w), w)))"

definition app_log_warning :: "(string \<times> string) list \<Rightarrow> unit prog" where
  "app_log_warning msg = (\<lambda>w. (Inr (), w\<lparr>calls := calls w @ [AppLogWarning msg]\<rparr>))"

definition braket_create_job :: "job_spec \<Rightarrow> (string \<times> string) list prog" where
  "braket_create_job spec =
     andthen (external (BraketCreateJob spec)) (\<lambda>_. (\<lambda>w. (Inr (create_job_answer w), w)))"

text \<open>
  \<^verbatim>\<open>os.environ[key] = value\<close> refuses a NUL character in either and a name that is
  empty or has an equals sign.
\<close>

definition os_environ_set :: "string \<Rightarrow> string \<Rightarrow> unit prog" where
  "os_environ_set key v = (\<lambda>w.
     if CHR 0x00 \<in> set key \<or> CHR 0x00 \<in> set v
     then (Inl (ValueError ''embedded null byte''), w)
     else if key = [] \<or> CHR ''='' \<in> set key
     then (Inl (ValueError ''illegal environment variable name''), w)
     else (Inr (), w\<lparr>environ := (environ w)(key \<mapsto> v)\<rparr>))"

text \<open>
  What \<^verbatim>\<open>execute\<close> returns: the result, or \<^verbatim>\<open>None\<close>; the logs; and a third
  component, which is a string or, on the early return, the identity dictionary.
\<close>

datatype third = Str string | Identity "(string \<times> string) list"

text \<open>
  \<^verbatim>\<open>execute\<close>. \<^verbatim>\<open>get_dispatch_context\<close> belongs to the base executor and is taken to
  do nothing here.
\<close>

definition execute ::
  "('f, 'r, 'v) libs \<Rightarrow> executor \<Rightarrow> 'f \<Rightarrow> 'v list \<Rightarrow> ('v \<times> 'v) list \<Rightarrow> string \<Rightarrow> string
     \<Rightarrow> int \<Rightarrow> ('r option \<times> string \<times> third) prog" where
  "execute libs self function args kwargs dispatch_id results_dir node_id =
     (let result_filename = ''result-'' @ dispatch_id @ ''-'' @ str_int node_id @ ''.pkl'';
          task_results_dir = os_path_join results_dir dispatch_id;
          image_tag = image_tag_of dispatch_id node_id
      in
      andthen (os_environ_set ''AWS_SHARED_CREDENTIALS_FILE'' (credentials self)) (\<lambda>_.
      andthen (os_environ_set ''AWS_PROFILE'' (profile self)) (\<lambda>_.
      andthen sts_get_caller_identity (\<lambda>identity.
      case map_of identity ''Account'' of
        None \<Rightarrow>
          andthen (app_log_warning identity) (\<lambda>_.
          ret (None, [], Identity identity))
      | Some account \<Rightarrow>
          andthen (external (Mkdir (cache_dir self))) (\<lambda>_.
          andthen (package_and_upload libs self function image_tag task_results_dir
                     result_filename args kwargs) (\<lambda>ecr_repo_uri.
          andthen (braket_create_job
                     \<lparr>containerImage_uri = ecr_repo_uri,
                      checkpointConfig_s3Uri =
                        ''s3://'' @ s3_bucket_name self @ ''/checkpoints/'' @ image_tag,
                      deviceConfig_device = quantum_device self,
                      instanceType = classical_device self,
                      volumeSizeInGb = storage self,
                      jobName = ''covalent-'' @ image_tag,
                      outputDataConfig_s3Path =
                        ''s3://'' @ s3_bucket_name self @ ''/braket/'' @ image_tag,
                      roleArn = ''arn:aws:iam::'' @ account @ '':role/''
                                @ braket_job_execution_role_name self,
                      maxRuntimeInSeconds = time_limit self\<rparr>) (\<lambda>job.
          andthen (case map_of job ''jobArn'' of
                     None \<Rightarrow> raise (KeyError ''jobArn'')
                   | Some arn \<Rightarrow> ret arn) (\<lambda>job_arn.
          andthen (poll_braket_job self job_arn) (\<lambda>_.
          andthen (query_result libs self result_filename task_results_dir job_arn image_tag)
            (\<lambda>(result, log_events, empty_string).
          ret (Some result, log_events, Str empty_string)))))))))))"

section \<open>Fixtures\<close>

text \<open>
  The executor of the test fixture (\<^verbatim>\<open>MOCK_CREDENTIALS\<close> and so on), with the defaults
  of the plugin where the fixture gives nothing; library functions that pickle and decode
  a string as itself, fail to load the text \<open>corrupt\<close> and print a value between single
  quotes; a world in which nothing has happened yet and no call fails.
\<close>

definition mock_executor :: executor where
  "mock_executor =
     \<lparr>credentials = ''mock_credentials'', profile = ''mock_profile'',
      s3_bucket_name = ''mock_s3_bucket_name'', ecr_repo_name = ''covalent-braket-job-images'',
      braket_job_execution_role_name = ''mock_role_name'', quantum_device = ''mock_device'',
      classical_device = ''mock_device'', storage = 1, time_limit = 1, poll_freq = 1,
      cache_dir = ''/tmp/covalent''\<rparr>"

definition mock_libs :: "(string, string, string) libs" where
  "mock_libs =
     \<lparr>pickle_dumps = Some,
      pickle_loads = (\<lambda>b. if b = ''corrupt'' then None else Some b),
      b64decode = Some,
      utf8_decode = Some,
      py_repr = (\<lambda>v. [CHR 0x27] @ v @ [CHR 0x27])\<rparr>"

definition world0 :: world where
  "world0 =
     \<lparr>environ = Map.empty, files = Map.empty, s3_objects = Map.empty,
      docker_images = Map.empty, calls = [],
      faults = (\<lambda>c. None), tmp_stem = (\<lambda>n. replicate (Suc n) CHR ''x''), tmp_count = 0,
      sts_identity = [(''Account'', ''123'')],
      ecr_authorizationData = [(''AWS:secret'', ''https://123.dkr.ecr.amazonaws.com'')],
      create_job_answer = [(''jobArn'', ''arn:job/1'')], get_job_answers = [],
      log_streams = (\<lambda>g p. []), log_events = (\<lambda>g s. [])\<rparr>"

text \<open>
  A world for \<^verbatim>\<open>_query_result\<close>: the result object of the task \<open>d1-1\<close> is in the
  bucket with the given content, and the log service answers as given for the log group
  of Braket jobs.
\<close>

definition retrieval_world ::
  "string \<Rightarrow> (string \<Rightarrow> string list) \<Rightarrow> (string \<Rightarrow> string list) \<Rightarrow> world" where
  "retrieval_world content streams events =
     world0\<lparr>s3_objects := [(''mock_s3_bucket_name'', ''result-d1-1.pkl'') \<mapsto> content],
            log_streams := (\<lambda>g p. if g = ''/aws/braket/jobs'' then streams p else []),
            log_events := (\<lambda>g s. if g = ''/aws/braket/jobs'' then events s else [])\<rparr>"

definition answer :: "string \<Rightarrow> error + job" where
  "answer st = Inr \<lparr>status = st, failureReason = None\<rparr>"


section \<open>The image tag\<close>

lemma digit_char_inj: "a < 10 \<Longrightarrow> b < 10 \<Longrightarrow> digit_char a = digit_char b \<Longrightarrow> a = b"
  by (simp add: digit_char_def char_of_eq_iff take_bit_nat_eq_self)

lemma digit_char_not_minus: "d < 10 \<Longrightarrow> digit_char d \<noteq> CHR ''-''"
proof
  assume d: "d < 10" and "digit_char d = CHR ''-''"
  then have "of_char (digit_char d) = (of_char (CHR ''-'') :: nat)" by simp
  with d show False by (simp add: digit_char_def take_bit_nat_eq_self)
qed

lemma str_nat_nonempty: "str_nat n \<noteq> []"
  by (subst str_nat.simps) simp

lemma str_nat_no_minus: "CHR ''-'' \<notin> set (str_nat n)"
proof (induction n rule: str_nat.induct)
  case (1 n)
  show ?case
  proof (cases "n < 10")
    case True
    then show ?thesis using digit_char_not_minus [of n] by (subst str_nat.simps) auto
  next
    case False
    then show ?thesis using 1 digit_char_not_minus [of "n mod 10"]
      by (subst str_nat.simps) auto
  qed
qed

lemma str_nat_inj: "str_nat n = str_nat m \<Longrightarrow> n = m"
proof (induction n arbitrary: m rule: str_nat.induct)
  case (1 n)
  show ?case
  proof (cases "n < 10")
    case True
    then have n: "str_nat n = [digit_char n]" by (subst str_nat.simps) simp
    show ?thesis
    proof (cases "m < 10")
      case mt: True
      then have "str_nat m = [digit_char m]" by (subst str_nat.simps) simp
      with n "1.prems" True mt show ?thesis by (simp add: digit_char_inj)
    next
      case mf: False
      then have "str_nat m = str_nat (m div 10) @ [digit_char (m mod 10)]"
        by (subst str_nat.simps) simp
      with n "1.prems" str_nat_nonempty [of "m div 10"] show ?thesis by simp
    qed
  next
    case False
    then have n: "str_nat n = str_nat (n div 10) @ [digit_char (n mod 10)]"
      by (subst str_nat.simps) simp
    show ?thesis
    proof (cases "m < 10")
      case mt: True
      then have "str_nat m = [digit_char m]" by (subst str_nat.simps) simp
      with n "1.prems" str_nat_nonempty [of "n div 10"] show ?thesis by simp
    next
      case mf: False
      then have "str_nat m = str_nat (m div 10) @ [digit_char (m mod 10)]"
        by (subst str_nat.simps) simp
      with n "1.prems" have a: "str_nat (n div 10) = str_nat (m div 10)"
        and b: "digit_char (n mod 10) = digit_char (m mod 10)" by simp_all
      from "1.IH" [OF False a] have "n div 10 = m div 10" .
      moreover from b have "n mod 10 = m mod 10" by (simp add: digit_char_inj)
      ultimately show ?thesis by (metis div_mult_mod_eq)
    qed
  qed
qed

lemma takeWhile_rev_minus:
  "CHR ''-'' \<notin> set ds \<Longrightarrow> takeWhile (\<lambda>c. c \<noteq> CHR ''-'') (rev (xs @ CHR ''-'' # ds)) = rev ds"
proof -
  assume "CHR ''-'' \<notin> set ds"
  then have "\<And>x. x \<in> set (rev ds) \<Longrightarrow> x \<noteq> CHR ''-''" by auto
  then have "takeWhile (\<lambda>c. c \<noteq> CHR ''-'') (rev ds @ CHR ''-'' # rev xs)
               = rev ds @ takeWhile (\<lambda>c. c \<noteq> CHR ''-'') (CHR ''-'' # rev xs)"
    by (rule takeWhile_append2)
  then show ?thesis by simp
qed

lemma split_at_last_minus:
  assumes "xs @ CHR ''-'' # ds = ys @ CHR ''-'' # es"
    and "CHR ''-'' \<notin> set ds" and "CHR ''-'' \<notin> set es"
  shows "xs = ys \<and> ds = es"
proof -
  have "rev ds = rev es"
    using takeWhile_rev_minus [OF assms(2), of xs] takeWhile_rev_minus [OF assms(3), of ys] assms(1)
    by simp
  then have "ds = es" by simp
  with assms(1) show ?thesis by simp
qed

lemma image_tag_nonneg:
  "0 \<le> n \<Longrightarrow> image_tag_of d n = d @ CHR ''-'' # str_nat (nat n)"
  by (simp add: image_tag_of_def str_int_def)

lemma image_tag_neg:
  "n < 0 \<Longrightarrow> image_tag_of d n = (d @ ''-'') @ CHR ''-'' # str_nat (nat (- n))"
  by (simp add: image_tag_of_def str_int_def)

text \<open>
  C8. The image tag is a function of the dispatch id and the node id, and two pairs get
  the same tag exactly when they are the same pair, or when one dispatch id is the other
  followed by a minus sign and the node ids are \<open>k\<close> and \<open>- k\<close> for a positive \<open>k\<close>.
  So pairs whose node ids are not negative get different tags when they differ.
\<close>

theorem image_tag_collisions:
  "image_tag_of d1 n1 = image_tag_of d2 n2 \<longleftrightarrow>
     (d1 = d2 \<and> n1 = n2)
     \<or> (0 < n1 \<and> n2 = - n1 \<and> d1 = d2 @ ''-'')
     \<or> (0 < n2 \<and> n1 = - n2 \<and> d2 = d1 @ ''-'')"
proof
  assume eq: "image_tag_of d1 n1 = image_tag_of d2 n2"
  consider (pp) "0 \<le> n1" "0 \<le> n2" | (pn) "0 \<le> n1" "n2 < 0"
    | (np) "n1 < 0" "0 \<le> n2" | (nn) "n1 < 0" "n2 < 0"
    by linarith
  then show "(d1 = d2 \<and> n1 = n2)
     \<or> (0 < n1 \<and> n2 = - n1 \<and> d1 = d2 @ ''-'')
     \<or> (0 < n2 \<and> n1 = - n2 \<and> d2 = d1 @ ''-'')"
  proof cases
    case pp
    with eq have "d1 @ CHR ''-'' # str_nat (nat n1) = d2 @ CHR ''-'' # str_nat (nat n2)"
      by (simp add: image_tag_nonneg)
    then have "d1 = d2 \<and> str_nat (nat n1) = str_nat (nat n2)"
      by (rule split_at_last_minus) (rule str_nat_no_minus)+
    then have "d1 = d2" and "nat n1 = nat n2" by (auto dest: str_nat_inj)
    with pp show ?thesis by simp
  next
    case pn
    with eq have "d1 @ CHR ''-'' # str_nat (nat n1) = (d2 @ ''-'') @ CHR ''-'' # str_nat (nat (- n2))"
      by (simp only: image_tag_nonneg image_tag_neg)
    then have "d1 = d2 @ ''-'' \<and> str_nat (nat n1) = str_nat (nat (- n2))"
      by (rule split_at_last_minus) (rule str_nat_no_minus)+
    then have "d1 = d2 @ ''-''" and "nat n1 = nat (- n2)" by (auto dest: str_nat_inj)
    with pn show ?thesis by auto
  next
    case np
    with eq have "(d1 @ ''-'') @ CHR ''-'' # str_nat (nat (- n1)) = d2 @ CHR ''-'' # str_nat (nat n2)"
      by (simp only: image_tag_nonneg image_tag_neg)
    then have "d1 @ ''-'' = d2 \<and> str_nat (nat (- n1)) = str_nat (nat n2)"
      by (rule split_at_last_minus) (rule str_nat_no_minus)+
    then have "d2 = d1 @ ''-''" and "nat (- n1) = nat n2" by (auto dest: str_nat_inj)
    with np show ?thesis by auto
  next
    case nn
    with eq have "(d1 @ ''-'') @ CHR ''-'' # str_nat (nat (- n1))
                    = (d2 @ ''-'') @ CHR ''-'' # str_nat (nat (- n2))"
      by (simp only: image_tag_nonneg image_tag_neg)
    then have "d1 @ ''-'' = d2 @ ''-'' \<and> str_nat (nat (- n1)) = str_nat (nat (- n2))"
      by (rule split_at_last_minus) (rule str_nat_no_minus)+
    then have "d1 = d2" and "nat (- n1) = nat (- n2)" by (auto dest: str_nat_inj)
    with nn show ?thesis by auto
  qed
next
  assume "(d1 = d2 \<and> n1 = n2)
     \<or> (0 < n1 \<and> n2 = - n1 \<and> d1 = d2 @ ''-'')
     \<or> (0 < n2 \<and> n1 = - n2 \<and> d2 = d1 @ ''-'')"
  then show "image_tag_of d1 n1 = image_tag_of d2 n2"
    by (auto simp: image_tag_of_def str_int_def)
qed

theorem image_tag_collisions_witness:
  "image_tag_of ''d1'' 1 = ''d1-1'' \<and> image_tag_of ''d1'' 1 \<noteq> image_tag_of ''d1'' 2
   \<and> image_tag_of ''d1'' 1 \<noteq> image_tag_of ''d1-'' 1"
proof -
  have "image_tag_of ''d1'' 1 = ''d1-1''" by code_simp
  moreover have "image_tag_of ''d1'' 1 \<noteq> image_tag_of ''d1'' 2"
    using image_tag_collisions [of "''d1''" 1 "''d1''" 2] by simp
  moreover have "image_tag_of ''d1'' 1 \<noteq> image_tag_of ''d1-'' 1"
    using image_tag_collisions [of "''d1''" 1 "''d1-''" 1] by simp
  ultimately show ?thesis by simp
qed

text \<open>
  The dispatch id \<open>a\<close> with the default node id \<open>-1\<close> and the dispatch id \<open>a-\<close> with
  node id \<open>1\<close> are different pairs with the same tag \<open>a--1\<close>.
\<close>

theorem image_tag_not_injective:
  "image_tag_of ''a'' (- 1) = image_tag_of ''a-'' 1 \<and> (''a'', - 1 :: int) \<noteq> (''a-'', 1)"
  by (simp add: image_tag_of_def str_int_def)

section \<open>The poll loop\<close>



text \<open>
  With a \<open>poll_freq\<close> that \<^verbatim>\<open>time.sleep\<close> refuses, the first sleep raises and no second
  query is made.
\<close>

lemma poll_while_refused_interval:
  "st \<notin> {''COMPLETED'', ''FAILED'', ''CANCELLED''} \<Longrightarrow>
   poll_freq self < 0 \<or> 9223372036 < poll_freq self \<Longrightarrow>
   \<exists>e. poll_while self job_arn st w =
         (Inl e, w\<lparr>calls := calls w @ [TimeSleep (poll_freq self)]\<rparr>)
       \<and> error_class e \<in> {''ValueError'', ''OverflowError''}"
  by (subst poll_while.simps) (auto simp add: time_sleep_def Let_def)












section \<open>Result retrieval\<close>

lemma foldl_log_events:
  "foldl (\<lambda>log_events message. log_events @ message @ ''\<newline>'') acc events
     = acc @ concat (map (\<lambda>message. message @ ''\<newline>'') events)"
  by (induction events arbitrary: acc) simp_all

text \<open>What \<^verbatim>\<open>_query_result\<close> does once the result object has been downloaded.\<close>

lemma query_result_downloaded:
  assumes "faults w (S3DownloadFile (s3_bucket_name self) result_filename
             (os_path_join task_results_dir result_filename)) = None"
    and "s3_objects w (s3_bucket_name self, result_filename) = Some content"
  shows "query_result libs self result_filename task_results_dir job_arn image_tag w =
    (let local_result_filename = os_path_join task_results_dir result_filename;
         download = S3DownloadFile (s3_bucket_name self) result_filename local_result_filename;
         describe = LogsDescribeLogStreams ''/aws/braket/jobs'' ''covalent-{image_tag}''
     in case pickle_loads libs content of
          None \<Rightarrow>
            (Inl UnpicklingError,
             w\<lparr>calls := calls w @ [download],
               files := (files w)(local_result_filename \<mapsto> content)\<rparr>)
        | Some result \<Rightarrow>
            (case faults w describe of
               Some e \<Rightarrow>
                 (Inl e, w\<lparr>calls := calls w @ [download, describe],
                           files := (files w)(local_result_filename := None)\<rparr>)
             | None \<Rightarrow>
                 (case log_streams w ''/aws/braket/jobs'' ''covalent-{image_tag}'' of
                    [] \<Rightarrow>
                      (Inl IndexError, w\<lparr>calls := calls w @ [download, describe],
                                          files := (files w)(local_result_filename := None)\<rparr>)
                  | log_stream_name # others \<Rightarrow>
                      (case faults w (LogsGetLogEvents ''/aws/braket/jobs'' log_stream_name) of
                         Some e \<Rightarrow> Inl e
                       | None \<Rightarrow>
                           Inr (result,
                                concat (map (\<lambda>message. message @ ''\<newline>'')
                                  (log_events w ''/aws/braket/jobs'' log_stream_name)),
                                []),
                       w\<lparr>calls := calls w @ [download, describe,
                                    LogsGetLogEvents ''/aws/braket/jobs'' log_stream_name],
                         files := (files w)(local_result_filename := None)\<rparr>))))"
  using assms
  by (simp add: query_result_def Let_def andthen_def s3_download_file_def external_def
                write_file_def open_read_def os_remove_def raise_def ret_def
                logs_describe_log_streams_def logs_get_log_events_def foldl_log_events
           split: option.splits list.splits)

lemma query_result_not_downloaded:
  assumes "faults w (S3DownloadFile (s3_bucket_name self) result_filename
             (os_path_join task_results_dir result_filename)) \<noteq> None
           \<or> s3_objects w (s3_bucket_name self, result_filename) = None"
  shows "\<exists>e. fst (query_result libs self result_filename task_results_dir job_arn image_tag w) = Inl e"
  using assms
  by (auto simp: query_result_def Let_def andthen_def s3_download_file_def external_def
           split: option.splits)

lemma query_result_ignores_image_tag:
  "query_result libs self result_filename task_results_dir job_arn image_tag
     = query_result libs self result_filename task_results_dir job_arn image_tag'"
  by (simp add: query_result_def)

text \<open>
  C4. \<^verbatim>\<open>_query_result\<close> returns a value exactly when the download, the two calls to
  the log service and the deserialization succeed and at least one log stream is listed.
  What it returns then is the deserialized result, the messages of the events of the
  first listed stream, each followed by a newline, in the order of the log service, and
  the empty string.
\<close>

theorem query_result_returns:
  "fst (query_result libs self result_filename task_results_dir job_arn image_tag w) = Inr out
   \<longleftrightarrow>
   faults w (S3DownloadFile (s3_bucket_name self) result_filename
              (os_path_join task_results_dir result_filename)) = None
   \<and> faults w (LogsDescribeLogStreams ''/aws/braket/jobs'' ''covalent-{image_tag}'') = None
   \<and> (\<exists>content result log_stream_name others.
         s3_objects w (s3_bucket_name self, result_filename) = Some content
         \<and> pickle_loads libs content = Some result
         \<and> log_streams w ''/aws/braket/jobs'' ''covalent-{image_tag}'' = log_stream_name # others
         \<and> faults w (LogsGetLogEvents ''/aws/braket/jobs'' log_stream_name) = None
         \<and> out = (result,
                  concat (map (\<lambda>message. message @ ''\<newline>'')
                    (log_events w ''/aws/braket/jobs'' log_stream_name)),
                  []))"
proof (cases "faults w (S3DownloadFile (s3_bucket_name self) result_filename
                (os_path_join task_results_dir result_filename)) = None
              \<and> s3_objects w (s3_bucket_name self, result_filename) \<noteq> None")
  case True
  then obtain content where c: "s3_objects w (s3_bucket_name self, result_filename) = Some content"
    and f: "faults w (S3DownloadFile (s3_bucket_name self) result_filename
              (os_path_join task_results_dir result_filename)) = None"
    by auto
  show ?thesis
    by (simp add: query_result_downloaded [OF f c] Let_def c f
             split: option.splits list.splits) auto
next
  case False
  then have "\<exists>e. fst (query_result libs self result_filename task_results_dir job_arn image_tag w)
               = Inl e"
    by (intro query_result_not_downloaded) auto
  with False show ?thesis by auto
qed

theorem query_result_returns_witness:
  "fst (query_result mock_libs mock_executor ''result-d1-1.pkl'' ''/tmp/d1'' ''arn:job/1'' ''d1-1''
     (retrieval_world ''hello world''
        (\<lambda>p. [''first'', ''second'']) (\<lambda>s. if s = ''first'' then [''a'', ''b''] else [''c''])))
   = Inr (''hello world'', ''a\<newline>b\<newline>'', [])"
  by (subst query_result_returns)
     (simp add: retrieval_world_def world0_def mock_executor_def mock_libs_def)

text \<open>
  C5. The prefix that \<^verbatim>\<open>_query_result\<close> passes to \<^verbatim>\<open>describe_log_streams\<close> is the
  text \<open>covalent-{image_tag}\<close> with its braces, whatever the image tag is. Here the log
  service has a stream for the prefix \<open>covalent-d1-1\<close>; the retrieval for the image tag
  \<open>d1-1\<close> asks for the literal prefix, gets no stream and fails.
\<close>

theorem query_result_literal_prefix:
  "calls (snd (query_result mock_libs mock_executor ''result-d1-1.pkl'' ''/tmp/d1'' ''arn:job/1''
     ''d1-1''
     (retrieval_world ''hello world''
        (\<lambda>p. if p = ''covalent-d1-1'' then [''covalent-d1-1/algo''] else []) (\<lambda>s. [''a'']))))
   = [S3DownloadFile ''mock_s3_bucket_name'' ''result-d1-1.pkl'' ''/tmp/d1/result-d1-1.pkl'',
      LogsDescribeLogStreams ''/aws/braket/jobs'' ''covalent-{image_tag}'']
   \<and> fst (query_result mock_libs mock_executor ''result-d1-1.pkl'' ''/tmp/d1'' ''arn:job/1''
     ''d1-1''
     (retrieval_world ''hello world''
        (\<lambda>p. if p = ''covalent-d1-1'' then [''covalent-d1-1/algo''] else []) (\<lambda>s. [''a''])))
   = Inl IndexError"
  by (subst (1 2) query_result_downloaded [where content = "''hello world''"])
     (simp_all add: retrieval_world_def world0_def mock_executor_def mock_libs_def
                    os_path_join_def Let_def)

text \<open>
  C6. When the download and the deserialization have succeeded and the log service lists
  no stream, \<^verbatim>\<open>_query_result\<close> raises \<^verbatim>\<open>IndexError\<close>: no result is returned, no log
  events are asked for, and the local copy of the result is already removed.
\<close>

theorem query_result_no_stream:
  assumes "faults w (S3DownloadFile (s3_bucket_name self) result_filename
             (os_path_join task_results_dir result_filename)) = None"
    and "s3_objects w (s3_bucket_name self, result_filename) = Some content"
    and "pickle_loads libs content = Some result"
    and "faults w (LogsDescribeLogStreams ''/aws/braket/jobs'' ''covalent-{image_tag}'') = None"
    and "log_streams w ''/aws/braket/jobs'' ''covalent-{image_tag}'' = []"
  shows "fst (query_result libs self result_filename task_results_dir job_arn image_tag w)
           = Inl IndexError
         \<and> calls (snd (query_result libs self result_filename task_results_dir job_arn image_tag w))
           = calls w @ [S3DownloadFile (s3_bucket_name self) result_filename
                          (os_path_join task_results_dir result_filename),
                        LogsDescribeLogStreams ''/aws/braket/jobs'' ''covalent-{image_tag}'']
         \<and> files (snd (query_result libs self result_filename task_results_dir job_arn image_tag w))
             (os_path_join task_results_dir result_filename) = None"
  using assms(3-5) by (simp add: query_result_downloaded [OF assms(1,2)] Let_def)

theorem query_result_no_stream_witness:
  "fst (query_result mock_libs mock_executor ''result-d1-1.pkl'' ''/tmp/d1'' ''arn:job/1'' ''d1-1''
     (retrieval_world ''42'' (\<lambda>p. []) (\<lambda>s. [])))
   = Inl IndexError
   \<and> files (snd (query_result mock_libs mock_executor ''result-d1-1.pkl'' ''/tmp/d1'' ''arn:job/1''
     ''d1-1'' (retrieval_world ''42'' (\<lambda>p. []) (\<lambda>s. []))))
     ''/tmp/d1/result-d1-1.pkl'' = None"
  using query_result_no_stream
    [of "retrieval_world ''42'' (\<lambda>p. []) (\<lambda>s. [])" mock_executor "''result-d1-1.pkl''"
        "''/tmp/d1''" "''42''" mock_libs "''42''" "''arn:job/1''" "''d1-1''"]
  by (simp add: retrieval_world_def world0_def mock_executor_def mock_libs_def os_path_join_def)

text \<open>
  The result \<open>hello world\<close> is in S3 and deserializes, the log service lists no stream:
  the retrieval fails and the result is not returned.
\<close>

theorem query_result_fails_without_stream:
  "fst (query_result mock_libs mock_executor ''result-d1-1.pkl'' ''/tmp/d1'' ''arn:job/1'' ''d1-1''
     (retrieval_world ''hello world'' (\<lambda>p. []) (\<lambda>s. [])))
   = Inl IndexError
   \<and> Inl IndexError \<noteq> (Inr (''hello world'', [], []) :: error + string \<times> string \<times> string)"
  by (subst query_result_downloaded [where content = "''hello world''"])
     (simp_all add: retrieval_world_def world0_def mock_executor_def mock_libs_def
                    os_path_join_def Let_def)

text \<open>
  C7. Once the result object is downloaded, the local copy is removed if the
  deserialization succeeds, whatever happens to the logs afterwards; if the
  deserialization raises, that error leaves \<^verbatim>\<open>_query_result\<close> and the local copy stays
  where it was written.
\<close>

theorem query_result_scratch_copy:
  assumes "faults w (S3DownloadFile (s3_bucket_name self) result_filename
             (os_path_join task_results_dir result_filename)) = None"
    and "s3_objects w (s3_bucket_name self, result_filename) = Some content"
  shows "files (snd (query_result libs self result_filename task_results_dir job_arn image_tag w))
           (os_path_join task_results_dir result_filename)
         = (if pickle_loads libs content = None then Some content else None)
         \<and> (pickle_loads libs content = None \<longrightarrow>
              fst (query_result libs self result_filename task_results_dir job_arn image_tag w)
                = Inl UnpicklingError)"
  by (simp add: query_result_downloaded [OF assms] Let_def split: option.splits list.splits)

theorem query_result_scratch_copy_witness:
  "files (snd (query_result mock_libs mock_executor ''result-d1-1.pkl'' ''/tmp/d1'' ''arn:job/1''
     ''d1-1'' (retrieval_world ''ok'' (\<lambda>p. [''s'']) (\<lambda>s. [''m'']))))
     ''/tmp/d1/result-d1-1.pkl'' = None
   \<and> files (snd (query_result mock_libs mock_executor ''result-d1-1.pkl'' ''/tmp/d1'' ''arn:job/1''
     ''d1-1'' (retrieval_world ''corrupt'' (\<lambda>p. [''s'']) (\<lambda>s. [''m'']))))
     ''/tmp/d1/result-d1-1.pkl'' = Some ''corrupt''"
  using query_result_scratch_copy
    [of "retrieval_world ''ok'' (\<lambda>p. [''s'']) (\<lambda>s. [''m''])" mock_executor "''result-d1-1.pkl''"
        "''/tmp/d1''" "''ok''" mock_libs "''arn:job/1''" "''d1-1''"]
    query_result_scratch_copy
    [of "retrieval_world ''corrupt'' (\<lambda>p. [''s'']) (\<lambda>s. [''m''])" mock_executor
        "''result-d1-1.pkl''" "''/tmp/d1''" "''corrupt''" mock_libs "''arn:job/1''" "''d1-1''"]
  by (simp add: retrieval_world_def world0_def mock_executor_def mock_libs_def os_path_join_def)

text \<open>
  The downloaded object \<open>corrupt\<close> does not deserialize: \<^verbatim>\<open>_query_result\<close> raises and
  the local copy is still there.
\<close>

theorem query_result_leaves_copy_on_failure:
  "fst (query_result mock_libs mock_executor ''result-d1-1.pkl'' ''/tmp/d1'' ''arn:job/1'' ''d1-1''
     (retrieval_world ''corrupt'' (\<lambda>p. [''first'']) (\<lambda>s. [''a''])))
   = Inl UnpicklingError
   \<and> files (snd (query_result mock_libs mock_executor ''result-d1-1.pkl'' ''/tmp/d1'' ''arn:job/1''
     ''d1-1'' (retrieval_world ''corrupt'' (\<lambda>p. [''first'']) (\<lambda>s. [''a'']))))
     ''/tmp/d1/result-d1-1.pkl'' = Some ''corrupt''"
  by (subst (1 2) query_result_downloaded [where content = "''corrupt''"])
     (simp_all add: retrieval_world_def world0_def mock_executor_def mock_libs_def
                    os_path_join_def Let_def)

section \<open>Packaging and the pipeline\<close>

lemma time_sleep_environ: "environ (snd (time_sleep secs w)) = environ w"
  by (simp add: time_sleep_def Let_def)

lemma get_status_environ: "environ (snd (get_status job_arn w)) = environ w"
  by (simp add: get_status_def andthen_def braket_get_job_def ret_def Let_def
           split: list.splits sum.splits)

lemma poll_while_environ:
  "environ (snd (poll_while self job_arn st w)) = environ w"
proof (induction self job_arn st w rule: poll_while.induct)
  case (1 self job_arn st w)
  show ?case
  proof (cases "st \<in> set [''COMPLETED'', ''FAILED'', ''CANCELLED'']")
    case True
    then show ?thesis by (subst poll_while.simps) simp
  next
    case False
    show ?thesis
    proof (cases "time_sleep (poll_freq self) w")
      case s: (Pair r1 w1)
      have e1: "environ w1 = environ w"
        using time_sleep_environ [of "poll_freq self" w] s by simp
      show ?thesis
      proof (cases r1)
        case (Inl e)
        with False s e1 show ?thesis by (subst poll_while.simps) simp
      next
        case u: (Inr u)
        show ?thesis
        proof (cases "get_status job_arn w1")
          case g: (Pair r2 w2)
          have e2: "environ w2 = environ w"
            using get_status_environ [of job_arn w1] g e1 by simp
          show ?thesis
          proof (cases r2)
            case (Inl e)
            with False s u g e2 show ?thesis by (subst poll_while.simps) simp
          next
            case (Inr st')
            from s u have p1: "(Inr u, w1) = time_sleep (poll_freq self) w" by simp
            from g Inr have p2: "(Inr st', w2) = get_status job_arn w1" by simp
            from "1.IH" [OF False p1 refl p2 refl]
            have "environ (snd (poll_while self job_arn st' w2)) = environ w2" .
            with False s u g Inr e2 show ?thesis by (subst poll_while.simps) simp
          qed
        qed
      qed
    qed
  qed
qed

lemma andthen_environ:
  assumes "\<And>v. environ (snd (m v)) = environ v"
    and "\<And>x v. environ (snd (f x v)) = environ v"
  shows "environ (snd (andthen m f w)) = environ w"
proof (cases "m w")
  case (Pair r w1)
  with assms(1) [of w] have "environ w1 = environ w" by simp
  with Pair assms(2) show ?thesis by (cases r) (simp_all add: andthen_def)
qed

lemma andthen_environ_after:
  assumes "\<And>x v. environ (snd (f x v)) = environ v"
  shows "environ (snd (andthen m f w)) = environ (snd (m w))"
proof (cases "m w")
  case (Pair r w1)
  with assms show ?thesis by (cases r) (simp_all add: andthen_def)
qed

lemma external_environ: "environ (snd (external c w)) = environ w"
  by (simp add: external_def Let_def split: option.splits)

lemma braket_get_job_environ: "environ (snd (braket_get_job job_arn w)) = environ w"
  by (simp add: braket_get_job_def Let_def split: list.splits)

lemma poll_braket_job_environ:
  "environ (snd (poll_braket_job self job_arn w)) = environ w"
  unfolding poll_braket_job_def
  by (auto intro!: andthen_environ get_status_environ poll_while_environ braket_get_job_environ
           simp: ret_def raise_def split: option.split)

lemma ret_environ: "environ (snd (ret x w)) = environ w"
  by (simp add: ret_def)

lemma raise_environ: "environ (snd (raise e w)) = environ w"
  by (simp add: raise_def)

lemma write_file_environ: "environ (snd (write_file path content w)) = environ w"
  by (simp add: write_file_def)

lemma open_read_environ: "environ (snd (open_read path w)) = environ w"
  by (simp add: open_read_def split: option.splits)

lemma os_remove_environ: "environ (snd (os_remove path w)) = environ w"
  by (simp add: os_remove_def split: option.splits)

lemma s3_upload_file_environ: "environ (snd (s3_upload_file filename bucket key w)) = environ w"
  unfolding s3_upload_file_def
  by (auto intro!: andthen_environ external_environ open_read_environ)

lemma s3_download_file_environ:
  "environ (snd (s3_download_file bucket key filename w)) = environ w"
  unfolding s3_download_file_def
  by (auto intro!: andthen_environ external_environ simp: write_file_def split: option.split)

lemma shutil_copyfile_environ: "environ (snd (shutil_copyfile src dst w)) = environ w"
  unfolding shutil_copyfile_def
  by (auto intro!: andthen_environ external_environ open_read_environ write_file_environ)

lemma docker_images_build_environ:
  "environ (snd (docker_images_build path dockerfile tag w)) = environ w"
  unfolding docker_images_build_def
  by (auto intro!: andthen_environ external_environ open_read_environ)

lemma with_named_temporary_file_environ:
  assumes "\<And>name v. environ (snd (body name v)) = environ v"
  shows "environ (snd (with_named_temporary_file dir suffix body w)) = environ w"
proof -
  have "\<And>v. environ (snd ((\<lambda>w.
       let name = tmp_name w (tmp_count w) dir suffix
       in if files w name \<noteq> None then (Inl (FileExistsError name), w)
          else (case body name
                       (w\<lparr>files := (files w)(name \<mapsto> []), tmp_count := Suc (tmp_count w)\<rparr>) of
                  (r, w2) \<Rightarrow> (r, w2\<lparr>files := (files w2)(name := None)\<rparr>))) v)) = environ v"
  proof -
    fix v
    let ?name = "tmp_name v (tmp_count v) dir suffix"
    let ?v1 = "v\<lparr>files := (files v)(?name \<mapsto> []), tmp_count := Suc (tmp_count v)\<rparr>"
    have "environ (snd (body ?name ?v1)) = environ v"
      using assms [of ?name ?v1] by simp
    then show "environ (snd ((\<lambda>w.
       let name = tmp_name w (tmp_count w) dir suffix
       in if files w name \<noteq> None then (Inl (FileExistsError name), w)
          else (case body name
                       (w\<lparr>files := (files w)(name \<mapsto> []), tmp_count := Suc (tmp_count w)\<rparr>) of
                  (r, w2) \<Rightarrow> (r, w2\<lparr>files := (files w2)(name := None)\<rparr>))) v)) = environ v"
      by (cases "body ?name ?v1") (simp add: Let_def)
  qed
  then show ?thesis
    unfolding with_named_temporary_file_def
    by (intro andthen_environ external_environ)
qed

lemma query_result_environ:
  "environ (snd (query_result libs self result_filename task_results_dir job_arn image_tag w))
     = environ w"
  unfolding query_result_def Let_def logs_describe_log_streams_def logs_get_log_events_def
  by (auto intro!: andthen_environ external_environ s3_download_file_environ open_read_environ
                   os_remove_environ ret_environ raise_environ
           split: option.split list.split)

lemma package_and_upload_environ:
  "environ (snd (package_and_upload libs self function image_tag task_results_dir
                   result_filename args kwargs w)) = environ w"
  unfolding package_and_upload_def Let_def
  by (auto intro!: andthen_environ with_named_temporary_file_environ external_environ
                   s3_upload_file_environ write_file_environ shutil_copyfile_environ
                   docker_images_build_environ ret_environ raise_environ
           split: option.split list.split)

lemma andthen_twice_environ:
  assumes "\<And>x v. environ (snd (f x v)) = environ v"
  shows "environ (snd (andthen a (\<lambda>_. andthen b f) w)) = environ (snd (andthen a (\<lambda>_. b) w))"
proof (cases "a w")
  case (Pair r w1)
  show ?thesis
  proof (cases r)
    case (Inl e)
    with Pair show ?thesis by (simp add: andthen_def)
  next
    case (Inr x)
    with Pair andthen_environ_after [of f b w1, OF assms] show ?thesis
      by (simp add: andthen_def [of a])
  qed
qed

text \<open>
  What the two assignments to \<^verbatim>\<open>os.environ\<close> at the start of \<^verbatim>\<open>execute\<close> leave, and
  that nothing after them touches the environment.
\<close>

lemma execute_environ:
  "environ (snd (execute libs self function args kwargs dispatch_id results_dir node_id w))
     = (if CHR 0x00 \<in> set (credentials self) then environ w
        else if CHR 0x00 \<in> set (profile self)
        then (environ w)(''AWS_SHARED_CREDENTIALS_FILE'' \<mapsto> credentials self)
        else (environ w)(''AWS_SHARED_CREDENTIALS_FILE'' \<mapsto> credentials self,
                         ''AWS_PROFILE'' \<mapsto> profile self))"
proof -
  have sts: "\<And>v. environ (snd (sts_get_caller_identity v)) = environ v"
    by (simp add: sts_get_caller_identity_def andthen_def external_def Let_def
             split: option.splits)
  have warn: "\<And>i v. environ (snd (app_log_warning i v)) = environ v"
    by (simp add: app_log_warning_def)
  have create: "\<And>spec v. environ (snd (braket_create_job spec v)) = environ v"
    by (simp add: braket_create_job_def andthen_def external_def Let_def split: option.splits)
  have r: "\<And>x v. environ (snd (ret x v)) = environ v"
    by (simp add: ret_def)
  have e: "\<And>x v. environ (snd (raise x v)) = environ v"
    by (simp add: raise_def)
  have "environ (snd (execute libs self function args kwargs dispatch_id results_dir node_id w))
          = environ (snd (andthen
              (os_environ_set ''AWS_SHARED_CREDENTIALS_FILE'' (credentials self))
              (\<lambda>_. os_environ_set ''AWS_PROFILE'' (profile self)) w))"
    unfolding execute_def Let_def
    by (rule andthen_twice_environ)
       (auto intro!: andthen_environ sts warn create r e external_environ
                     package_and_upload_environ poll_braket_job_environ query_result_environ
             split: option.split prod.split)
  then show ?thesis
    by (simp add: andthen_def os_environ_set_def)
qed

lemma execute_nul_credentials:
  assumes "CHR 0x00 \<in> set (credentials self)"
  shows "execute libs self function args kwargs dispatch_id results_dir node_id w =
           (Inl (ValueError ''embedded null byte''), w)"
  using assms by (simp add: execute_def Let_def andthen_def os_environ_set_def)

lemma execute_sts_fault:
  assumes "CHR 0x00 \<notin> set (credentials self)" and "CHR 0x00 \<notin> set (profile self)"
    and "faults w StsGetCallerIdentity = Some e"
  shows "execute libs self function args kwargs dispatch_id results_dir node_id w =
           (Inl e,
            w\<lparr>environ := (environ w)(''AWS_SHARED_CREDENTIALS_FILE'' \<mapsto> credentials self,
                                      ''AWS_PROFILE'' \<mapsto> profile self),
              calls := calls w @ [StsGetCallerIdentity]\<rparr>)"
  using assms
  by (simp add: execute_def Let_def andthen_def os_environ_set_def sts_get_caller_identity_def
                external_def)

lemma execute_no_account:
  assumes "CHR 0x00 \<notin> set (credentials self)" and "CHR 0x00 \<notin> set (profile self)"
    and "faults w StsGetCallerIdentity = None"
    and "map_of (sts_identity w) ''Account'' = None"
  shows "execute libs self function args kwargs dispatch_id results_dir node_id w =
           (Inr (None, [], Identity (sts_identity w)),
            w\<lparr>environ := (environ w)(''AWS_SHARED_CREDENTIALS_FILE'' \<mapsto> credentials self,
                                      ''AWS_PROFILE'' \<mapsto> profile self),
              calls := calls w @ [StsGetCallerIdentity, AppLogWarning (sts_identity w)]\<rparr>)"
  using assms
  by (simp add: execute_def Let_def andthen_def os_environ_set_def sts_get_caller_identity_def
                external_def app_log_warning_def ret_def)

text \<open>
  C3. The credentials and the profile of the executor have no NUL character, so that the
  assignments to the environment succeed. When the identity lookup raises,
  \<^verbatim>\<open>execute\<close> ends with that same error. When the identity has no \<open>Account\<close> entry,
  \<^verbatim>\<open>execute\<close> raises nothing: it logs the identity as a warning and returns
  \<^verbatim>\<open>(None, "", identity)\<close>. In both cases the only calls made are the ones shown, so
  nothing is packaged or uploaded and no job is created; the environment variables for
  the credentials are set all the same.
\<close>

theorem execute_without_account:
  assumes "CHR 0x00 \<notin> set (credentials self)" and "CHR 0x00 \<notin> set (profile self)"
  shows
  "(faults w StsGetCallerIdentity = Some e \<longrightarrow>
      execute libs self function args kwargs dispatch_id results_dir node_id w =
        (Inl e,
         w\<lparr>environ := (environ w)(''AWS_SHARED_CREDENTIALS_FILE'' \<mapsto> credentials self,
                                   ''AWS_PROFILE'' \<mapsto> profile self),
           calls := calls w @ [StsGetCallerIdentity]\<rparr>))
   \<and> (faults w StsGetCallerIdentity = None \<and> map_of (sts_identity w) ''Account'' = None \<longrightarrow>
      execute libs self function args kwargs dispatch_id results_dir node_id w =
        (Inr (None, [], Identity (sts_identity w)),
         w\<lparr>environ := (environ w)(''AWS_SHARED_CREDENTIALS_FILE'' \<mapsto> credentials self,
                                   ''AWS_PROFILE'' \<mapsto> profile self),
           calls := calls w @ [StsGetCallerIdentity, AppLogWarning (sts_identity w)]\<rparr>))"
  using assms by (simp add: execute_sts_fault execute_no_account)

theorem execute_without_account_witness:
  "fst (execute mock_libs mock_executor ''f'' [] [] ''d1'' ''/tmp'' 1
     (world0\<lparr>faults := (\<lambda>c. if c = StsGetCallerIdentity then Some (ClientError ''ExpiredToken'')
                               else None)\<rparr>))
     = Inl (ClientError ''ExpiredToken'')
   \<and> calls (snd (execute mock_libs mock_executor ''f'' [] [] ''d1'' ''/tmp'' 1
     (world0\<lparr>faults := (\<lambda>c. if c = StsGetCallerIdentity then Some (ClientError ''ExpiredToken'')
                               else None)\<rparr>)))
     = [StsGetCallerIdentity]
   \<and> fst (execute mock_libs mock_executor ''f'' [] [] ''d1'' ''/tmp'' 1
     (world0\<lparr>sts_identity := [(''UserId'', ''AIDA'')]\<rparr>))
     = Inr (None, [], Identity [(''UserId'', ''AIDA'')])
   \<and> calls (snd (execute mock_libs mock_executor ''f'' [] [] ''d1'' ''/tmp'' 1
     (world0\<lparr>sts_identity := [(''UserId'', ''AIDA'')]\<rparr>)))
     = [StsGetCallerIdentity, AppLogWarning [(''UserId'', ''AIDA'')]]"
proof -
  have c: "CHR 0x00 \<notin> set (credentials mock_executor)"
    by (simp add: mock_executor_def)
  have p: "CHR 0x00 \<notin> set (profile mock_executor)"
    by (simp add: mock_executor_def)
  show ?thesis
    using execute_without_account
      [OF c p, of "world0\<lparr>faults := (\<lambda>c. if c = StsGetCallerIdentity
                                          then Some (ClientError ''ExpiredToken'') else None)\<rparr>"
          "ClientError ''ExpiredToken''" mock_libs "''f''" "[]" "[]" "''d1''" "''/tmp''" 1]
      execute_without_account
      [OF c p, of "world0\<lparr>sts_identity := [(''UserId'', ''AIDA'')]\<rparr>" undefined mock_libs
          "''f''" "[]" "[]" "''d1''" "''/tmp''" 1]
    by (simp add: world0_def)
qed

text \<open>
  The identity service answers without an \<open>Account\<close>: \<^verbatim>\<open>execute\<close> returns a value,
  it does not raise.
\<close>

theorem execute_returns_without_account:
  "fst (execute mock_libs mock_executor ''f'' [] [] ''d1'' ''/tmp'' 1
     (world0\<lparr>sts_identity := [(''UserId'', ''AIDA''), (''Arn'', ''arn:aws:iam::user/x'')]\<rparr>))
   = Inr (None, [], Identity [(''UserId'', ''AIDA''), (''Arn'', ''arn:aws:iam::user/x'')])"
  by (subst execute_no_account) (simp_all add: world0_def mock_executor_def)

text \<open>
  C9. \<^verbatim>\<open>execute\<close> changes the environment of the process. It assigns
  \<open>AWS_SHARED_CREDENTIALS_FILE\<close> and then \<open>AWS_PROFILE\<close>, and an assignment raises when
  its value has a NUL character. So with a NUL in the credentials the environment stays
  as it was, with a NUL in the profile only the first variable is set, and otherwise,
  whatever the run does afterwards and however it ends, the environment is the one
  before with the two variables set to the credentials and the profile of the executor.
  Nothing else in it changes.
\<close>

theorem execute_sets_credentials_environ:
  "environ (snd (execute libs self function args kwargs dispatch_id results_dir node_id w))
     = (if CHR 0x00 \<in> set (credentials self) then environ w
        else if CHR 0x00 \<in> set (profile self)
        then (environ w)(''AWS_SHARED_CREDENTIALS_FILE'' \<mapsto> credentials self)
        else (environ w)(''AWS_SHARED_CREDENTIALS_FILE'' \<mapsto> credentials self,
                         ''AWS_PROFILE'' \<mapsto> profile self))"
  by (rule execute_environ)

theorem execute_sets_credentials_environ_witness:
  "environ (snd (execute mock_libs mock_executor ''f'' [] [] ''d1'' ''/tmp'' 1
     (world0\<lparr>environ := [''HOME'' \<mapsto> ''/root'', ''AWS_PROFILE'' \<mapsto> ''default'']\<rparr>)))
   = [''HOME'' \<mapsto> ''/root'', ''AWS_PROFILE'' \<mapsto> ''mock_profile'',
      ''AWS_SHARED_CREDENTIALS_FILE'' \<mapsto> ''mock_credentials'']
   \<and> environ (snd (execute mock_libs (mock_executor\<lparr>profile := [CHR ''p'', CHR 0x00]\<rparr>)
       ''f'' [] [] ''d1'' ''/tmp'' 1 world0))
   = [''AWS_SHARED_CREDENTIALS_FILE'' \<mapsto> ''mock_credentials'']
   \<and> environ (snd (execute mock_libs (mock_executor\<lparr>credentials := [CHR ''c'', CHR 0x00]\<rparr>)
       ''f'' [] [] ''d1'' ''/tmp'' 1 world0))
   = Map.empty"
  using execute_sets_credentials_environ
      [of mock_libs mock_executor "''f''" "[]" "[]" "''d1''" "''/tmp''" 1
          "world0\<lparr>environ := [''HOME'' \<mapsto> ''/root'', ''AWS_PROFILE'' \<mapsto> ''default'']\<rparr>"]
    execute_sets_credentials_environ
      [of mock_libs "mock_executor\<lparr>profile := [CHR ''p'', CHR 0x00]\<rparr>" "''f''" "[]" "[]"
          "''d1''" "''/tmp''" 1 world0]
    execute_sets_credentials_environ
      [of mock_libs "mock_executor\<lparr>credentials := [CHR ''c'', CHR 0x00]\<rparr>" "''f''" "[]" "[]"
          "''d1''" "''/tmp''" 1 world0]
  by (auto simp add: world0_def mock_executor_def)

text \<open>In a process without \<open>AWS_PROFILE\<close>, the variable is set after \<^verbatim>\<open>execute\<close>.\<close>

theorem execute_changes_environ:
  "environ world0 ''AWS_PROFILE'' = None
   \<and> environ (snd (execute mock_libs mock_executor ''f'' [] [] ''d1'' ''/tmp'' 1 world0))
       ''AWS_PROFILE'' = Some ''mock_profile''"
  by (simp add: execute_environ) (simp add: world0_def mock_executor_def)

lemma same_text_same_basename:
  assumes "P @ b1 @ M @ b1 @ E = P @ b2 @ M @ b2 @ (E :: string)"
  shows "b1 = b2"
proof -
  from assms have eq: "b1 @ (M @ b1 @ E) = b2 @ (M @ b2 @ E)" by simp
  have "length (P @ b1 @ M @ b1 @ E) = length (P @ b2 @ M @ b2 @ E)"
    by (rule arg_cong [OF assms])
  then have "length b1 = length b2" by simp
  with eq show ?thesis by simp
qed

lemma format_dockerfile_eq_iff:
  "format_dockerfile n1 docker_working_dir = format_dockerfile n2 docker_working_dir
     \<longleftrightarrow> os_path_basename n1 = os_path_basename n2"
proof
  assume eq: "format_dockerfile n1 docker_working_dir = format_dockerfile n2 docker_working_dir"
  define P where "P = ''\<newline>FROM python:3.8-slim-buster\<newline>\<newline>''
      @ ''RUN apt-get update && apt-get install -y '' @ backslash @ ''\<newline>''
      @ ''  gcc '' @ backslash @ ''\<newline>''
      @ ''  && rm -rf /var/lib/apt/lists/*\<newline>''
      @ ''RUN pip install --no-cache-dir --use-feature=in-tree-build --upgrade '' @ backslash @ ''\<newline>''
      @ ''  amazon-braket-pennylane-plugin '' @ backslash @ ''\<newline>''
      @ ''  boto3==1.20.48 '' @ backslash @ ''\<newline>''
      @ ''  cloudpickle==2.0.0 '' @ backslash @ ''\<newline>''
      @ ''  pennylane==0.16.0 '' @ backslash @ ''\<newline>''
      @ ''  sagemaker-training\<newline>\<newline>''
      @ ''WORKDIR '' @ docker_working_dir @ ''\<newline>\<newline>''
      @ ''COPY ''"
  define M where "M = '' '' @ docker_working_dir @ ''\<newline>\<newline>'' @ ''ENV SAGEMAKER_PROGRAM ''"
  have shape: "\<And>n. format_dockerfile n docker_working_dir
                 = P @ os_path_basename n @ M @ os_path_basename n @ ''\<newline>''"
    by (simp add: format_dockerfile_def Let_def P_def M_def)
  from eq show "os_path_basename n1 = os_path_basename n2"
    unfolding shape by (rule same_text_same_basename)
next
  assume "os_path_basename n1 = os_path_basename n2"
  then show "format_dockerfile n1 docker_working_dir = format_dockerfile n2 docker_working_dir"
    by (simp add: format_dockerfile_def)
qed

lemma take_os_path_join:
  "take (length dir) (os_path_join dir (CHR ''t'' # rest)) = dir"
  by (simp add: os_path_join_def)

text \<open>What it means for a step to return.\<close>

lemma andthen_returns:
  "andthen m f w = (Inr y, w') \<longleftrightarrow> (\<exists>x w1. m w = (Inr x, w1) \<and> f x w1 = (Inr y, w'))"
  by (cases "m w") (auto simp: andthen_def split: sum.splits)

lemma external_returns:
  "external c w = (Inr u, w') \<longleftrightarrow> faults w c = None \<and> w' = w\<lparr>calls := calls w @ [c]\<rparr>"
  by (auto simp: external_def Let_def split: option.splits)

lemma ret_returns: "ret x w = (Inr y, w') \<longleftrightarrow> y = x \<and> w' = w"
  by (auto simp: ret_def)

lemma raise_returns: "raise e w = (Inr y, w') \<longleftrightarrow> False"
  by (simp add: raise_def)

lemma write_file_returns:
  "write_file path content w = (Inr u, w') \<longleftrightarrow> w' = w\<lparr>files := (files w)(path \<mapsto> content)\<rparr>"
  by (auto simp: write_file_def)

lemma open_read_returns:
  "open_read path w = (Inr content, w') \<longleftrightarrow> files w path = Some content \<and> w' = w"
  by (auto simp: open_read_def split: option.splits)

lemma with_named_temporary_file_returns:
  "with_named_temporary_file dir suffix body w = (Inr y, w') \<longleftrightarrow>
     faults w (NamedTemporaryFile dir suffix) = None
     \<and> files w (tmp_name w (tmp_count w) dir suffix) = None
     \<and> (\<exists>w2. body (tmp_name w (tmp_count w) dir suffix)
                 (w\<lparr>calls := calls w @ [NamedTemporaryFile dir suffix],
                    files := (files w)(tmp_name w (tmp_count w) dir suffix \<mapsto> []),
                    tmp_count := Suc (tmp_count w)\<rparr>) = (Inr y, w2)
              \<and> w' = w2\<lparr>files := (files w2)(tmp_name w (tmp_count w) dir suffix := None)\<rparr>)"
  by (auto simp: with_named_temporary_file_def andthen_returns external_returns Let_def
                 tmp_name_def
           split: prod.splits if_splits)

lemma shutil_copyfile_returns:
  "shutil_copyfile src dst w = (Inr u, w') \<longleftrightarrow>
     faults w (ShutilCopyfile src dst) = None
     \<and> (\<exists>content. files w src = Some content
           \<and> w' = w\<lparr>calls := calls w @ [ShutilCopyfile src dst],
                     files := (files w)(dst \<mapsto> content)\<rparr>)"
  by (auto simp: shutil_copyfile_def andthen_returns external_returns open_read_returns
                 write_file_returns)

lemma docker_images_build_returns:
  "docker_images_build path dockerfile tag w = (Inr u, w') \<longleftrightarrow>
     faults w (DockerBuild path dockerfile tag) = None
     \<and> (\<exists>text. files w dockerfile = Some text
           \<and> w' = w\<lparr>calls := calls w @ [DockerBuild path dockerfile tag],
                     docker_images := (docker_images w)(tag \<mapsto>
                       \<lparr>image_dockerfile = text,
                        image_context = (\<lambda>p. if take (length path) p = path then files w p
                                             else None)\<rparr>)\<rparr>)"
  by (auto simp: docker_images_build_def andthen_returns external_returns open_read_returns
           cong: if_cong)

lemma s3_upload_file_returns:
  "s3_upload_file filename bucket key w = (Inr u, w') \<longleftrightarrow>
     faults w (S3UploadFile filename bucket key) = None
     \<and> (\<exists>content. files w filename = Some content
           \<and> w' = w\<lparr>calls := calls w @ [S3UploadFile filename bucket key],
                     s3_objects := (s3_objects w)((bucket, key) \<mapsto> content)\<rparr>)"
  by (auto simp: s3_upload_file_def andthen_returns external_returns open_read_returns)


lemma case_option_returns:
  "(case x of None \<Rightarrow> m | Some v \<Rightarrow> g v) w = (Inr y, w') \<longleftrightarrow>
     (x = None \<and> m w = (Inr y, w')) \<or> (\<exists>v. x = Some v \<and> g v w = (Inr y, w'))"
  by (cases x) simp_all

lemma case_list_returns:
  "(case xs of [] \<Rightarrow> m | c # cs \<Rightarrow> g c cs) = (Inr y, w') \<longleftrightarrow>
     (xs = [] \<and> m = (Inr y, w')) \<or> (\<exists>c cs. xs = c # cs \<and> g c cs = (Inr y, w'))"
  by (cases xs) simp_all

text \<open>
  The image that a \<^verbatim>\<open>_package_and_upload\<close> which returns has had docker build: its
  Dockerfile names the temporary file of the execution script, and its build context
  holds the script under that name.
\<close>

lemma package_and_upload_image:
  assumes "fst (package_and_upload libs self function image_tag task_results_dir
                  result_filename args kwargs w) = Inr ecr_repo_uri"
    and "exec_script_file_name w self
           \<noteq> os_path_join task_results_dir (''Dockerfile_'' @ image_tag)"
  shows "map_option image_dockerfile
           (docker_images (snd (package_and_upload libs self function image_tag task_results_dir
                                  result_filename args kwargs w)) image_tag)
         = Some (format_dockerfile (exec_script_file_name w self) ''/opt/ml/code'')
       \<and> Option.bind
           (docker_images (snd (package_and_upload libs self function image_tag task_results_dir
                                  result_filename args kwargs w)) image_tag)
           (\<lambda>i. image_context i (exec_script_file_name w self))
         = Some (format_exec_script libs self (''func-'' @ image_tag @ ''.pkl'') result_filename
                   ''/opt/ml/code'' args kwargs)"
proof -
  from assms(1) obtain w' where
    run: "package_and_upload libs self function image_tag task_results_dir
            result_filename args kwargs w = (Inr ecr_repo_uri, w')"
    by (cases "package_and_upload libs self function image_tag task_results_dir
                 result_filename args kwargs w") simp
  from run assms(2) have
    "\<exists>ctx.
       docker_images w' image_tag
         = Some \<lparr>image_dockerfile =
                   format_dockerfile (exec_script_file_name w self) ''/opt/ml/code'',
                 image_context = ctx\<rparr>
       \<and> ctx (exec_script_file_name w self)
         = Some (format_exec_script libs self (''func-'' @ image_tag @ ''.pkl'') result_filename
                   ''/opt/ml/code'' args kwargs)"
    unfolding package_and_upload_def Let_def
    by (auto simp: andthen_returns with_named_temporary_file_returns external_returns
                   ret_returns raise_returns write_file_returns shutil_copyfile_returns
                   docker_images_build_returns s3_upload_file_returns tmp_name_def
                   case_option_returns case_list_returns take_os_path_join
             cong: if_cong)
  then show ?thesis
    by (auto simp: run)
qed

lemma str_int_1: "str_int 1 = ''1''"
  by code_simp

lemma remove_scheme:
  "str_replace ''https://'' [] ''https://123.dkr.ecr.amazonaws.com'' = ''123.dkr.ecr.amazonaws.com''"
  by code_simp

lemma remove_user: "str_replace ''AWS:'' [] ''AWS:secret'' = ''secret''"
  by code_simp

text \<open>Packaging returns in the worlds of the fixture.\<close>

lemma mock_packaging_returns:
  "fst (package_and_upload mock_libs mock_executor ''f'' ''d1-1'' ''/tmp/d1''
          ''result-d1-1.pkl'' args kwargs world0)
     = Inr ''123.dkr.ecr.amazonaws.com/covalent-braket-job-images:d1-1''"
  "fst (package_and_upload mock_libs mock_executor ''f'' ''d1-1'' ''/tmp/d1''
          ''result-d1-1.pkl'' args kwargs (world0\<lparr>tmp_count := Suc 0\<rparr>))
     = Inr ''123.dkr.ecr.amazonaws.com/covalent-braket-job-images:d1-1''"
  "fst (package_and_upload mock_libs mock_executor ''f'' ''d1-1'' ''/tmp/d1''
          ''result-d1-1.pkl'' args kwargs
          (world0\<lparr>tmp_stem := (\<lambda>n. replicate (Suc n) CHR ''y'')\<rparr>))
     = Inr ''123.dkr.ecr.amazonaws.com/covalent-braket-job-images:d1-1''"
  by (simp_all add: package_and_upload_def Let_def andthen_def with_named_temporary_file_def
                    s3_upload_file_def external_def write_file_def open_read_def
                    shutil_copyfile_def docker_images_build_def raise_def ret_def tmp_name_def
                    os_path_join_def remove_scheme remove_user
                    world0_def mock_libs_def mock_executor_def)

text \<open>
  Two dictionaries of keyword arguments with the same items, inserted in different
  orders, are equal in Python and print differently, and so do the scripts.
\<close>

lemma equal_kwargs_different_script:
  "map_of [(''a'', ''1''), (''b'', ''2'')] = map_of [(''b'', ''2''), (''a'', ''1'')]
   \<and> format_exec_script mock_libs self func_filename result_filename docker_working_dir args
         [(''a'', ''1''), (''b'', ''2'')]
     \<noteq> format_exec_script mock_libs self func_filename result_filename docker_working_dir args
         [(''b'', ''2''), (''a'', ''1'')]"
proof
  show "map_of [(''a'', ''1''), (''b'', ''2'')] = map_of [(''b'', ''2''), (''a'', ''1'')]"
    by (rule ext) simp
  show "format_exec_script mock_libs self func_filename result_filename docker_working_dir args
         [(''a'', ''1''), (''b'', ''2'')]
     \<noteq> format_exec_script mock_libs self func_filename result_filename docker_working_dir args
         [(''b'', ''2''), (''a'', ''1'')]"
    by (simp add: format_exec_script_def py_str_dict_def mock_libs_def)
qed

text \<open>
  C10. The Dockerfile names the temporary file that holds the execution script, and the
  script prints the arguments. When two packaging runs with the same callable, image
  tag, result file and executor return, each has had its image built from the Dockerfile
  text for the name that \<^verbatim>\<open>tempfile\<close> gave its script, with the script for its
  arguments under that name in the build context. The two Dockerfile texts are the same
  exactly when the script got the same base name in both runs, and the two script texts
  are the same when the arguments print the same in both.
\<close>

theorem recipe_names_temporary_file:
  assumes "fst (package_and_upload libs self function image_tag task_results_dir
                  result_filename args_a kwargs_a wa) = Inr uri_a"
    and "fst (package_and_upload libs self function image_tag task_results_dir
                  result_filename args_b kwargs_b wb) = Inr uri_b"
    and "exec_script_file_name wa self
           \<noteq> os_path_join task_results_dir (''Dockerfile_'' @ image_tag)"
    and "exec_script_file_name wb self
           \<noteq> os_path_join task_results_dir (''Dockerfile_'' @ image_tag)"
  shows "map_option image_dockerfile
           (docker_images (snd (package_and_upload libs self function image_tag task_results_dir
                                  result_filename args_a kwargs_a wa)) image_tag)
         = Some (format_dockerfile (exec_script_file_name wa self) ''/opt/ml/code'')
       \<and> map_option image_dockerfile
           (docker_images (snd (package_and_upload libs self function image_tag task_results_dir
                                  result_filename args_b kwargs_b wb)) image_tag)
         = Some (format_dockerfile (exec_script_file_name wb self) ''/opt/ml/code'')
       \<and> Option.bind
           (docker_images (snd (package_and_upload libs self function image_tag task_results_dir
                                  result_filename args_a kwargs_a wa)) image_tag)
           (\<lambda>i. image_context i (exec_script_file_name wa self))
         = Some (format_exec_script libs self (''func-'' @ image_tag @ ''.pkl'') result_filename
                   ''/opt/ml/code'' args_a kwargs_a)
       \<and> Option.bind
           (docker_images (snd (package_and_upload libs self function image_tag task_results_dir
                                  result_filename args_b kwargs_b wb)) image_tag)
           (\<lambda>i. image_context i (exec_script_file_name wb self))
         = Some (format_exec_script libs self (''func-'' @ image_tag @ ''.pkl'') result_filename
                   ''/opt/ml/code'' args_b kwargs_b)
       \<and> (map_option image_dockerfile
            (docker_images (snd (package_and_upload libs self function image_tag task_results_dir
                                   result_filename args_a kwargs_a wa)) image_tag)
          = map_option image_dockerfile
            (docker_images (snd (package_and_upload libs self function image_tag task_results_dir
                                   result_filename args_b kwargs_b wb)) image_tag)
          \<longleftrightarrow>
          os_path_basename (exec_script_file_name wa self)
          = os_path_basename (exec_script_file_name wb self))
       \<and> (py_str_list (py_repr libs) args_a = py_str_list (py_repr libs) args_b
          \<and> py_str_dict (py_repr libs) kwargs_a = py_str_dict (py_repr libs) kwargs_b
          \<longrightarrow>
          Option.bind
            (docker_images (snd (package_and_upload libs self function image_tag task_results_dir
                                   result_filename args_a kwargs_a wa)) image_tag)
            (\<lambda>i. image_context i (exec_script_file_name wa self))
          = Option.bind
            (docker_images (snd (package_and_upload libs self function image_tag task_results_dir
                                   result_filename args_b kwargs_b wb)) image_tag)
            (\<lambda>i. image_context i (exec_script_file_name wb self)))"
proof -
  note a = package_and_upload_image [OF assms(1,3)]
  note b = package_and_upload_image [OF assms(2,4)]
  note a1 = a [THEN conjunct1] and a2 = a [THEN conjunct2]
    and b1 = b [THEN conjunct1] and b2 = b [THEN conjunct2]
  show ?thesis
    unfolding a1 a2 b1 b2
    by (simp add: format_dockerfile_eq_iff format_exec_script_def)
qed

theorem recipe_names_temporary_file_witness:
  "map_option image_dockerfile
     (docker_images (snd (package_and_upload mock_libs mock_executor ''f'' ''d1-1'' ''/tmp/d1''
        ''result-d1-1.pkl'' [''x''] [(''k'', ''v'')] world0)) ''d1-1'')
     = Some (format_dockerfile ''/tmp/covalent/tmpxx.py'' ''/opt/ml/code'')
   \<and> map_option image_dockerfile
     (docker_images (snd (package_and_upload mock_libs mock_executor ''f'' ''d1-1'' ''/tmp/d1''
        ''result-d1-1.pkl'' [''x''] [(''k'', ''v'')] (world0\<lparr>tmp_count := Suc 0\<rparr>))) ''d1-1'')
     = Some (format_dockerfile ''/tmp/covalent/tmpxxx.py'' ''/opt/ml/code'')
   \<and> map_option image_dockerfile
     (docker_images (snd (package_and_upload mock_libs mock_executor ''f'' ''d1-1'' ''/tmp/d1''
        ''result-d1-1.pkl'' [''x''] [(''k'', ''v'')] world0)) ''d1-1'')
     \<noteq> map_option image_dockerfile
     (docker_images (snd (package_and_upload mock_libs mock_executor ''f'' ''d1-1'' ''/tmp/d1''
        ''result-d1-1.pkl'' [''x''] [(''k'', ''v'')] (world0\<lparr>tmp_count := Suc 0\<rparr>))) ''d1-1'')
   \<and> Option.bind
     (docker_images (snd (package_and_upload mock_libs mock_executor ''f'' ''d1-1'' ''/tmp/d1''
        ''result-d1-1.pkl'' [''x''] [(''k'', ''v'')] world0)) ''d1-1'')
     (\<lambda>i. image_context i ''/tmp/covalent/tmpxx.py'')
     = Option.bind
     (docker_images (snd (package_and_upload mock_libs mock_executor ''f'' ''d1-1'' ''/tmp/d1''
        ''result-d1-1.pkl'' [''x''] [(''k'', ''v'')] (world0\<lparr>tmp_count := Suc 0\<rparr>))) ''d1-1'')
     (\<lambda>i. image_context i ''/tmp/covalent/tmpxxx.py'')"
proof -
  let ?wb = "world0\<lparr>tmp_count := Suc 0\<rparr>"
  have xa: "exec_script_file_name world0 mock_executor = ''/tmp/covalent/tmpxx.py''"
    by (simp add: world0_def mock_executor_def tmp_name_def os_path_join_def)
  have xb: "exec_script_file_name ?wb mock_executor = ''/tmp/covalent/tmpxxx.py''"
    by (simp add: world0_def mock_executor_def tmp_name_def os_path_join_def)
  have na: "exec_script_file_name world0 mock_executor
              \<noteq> os_path_join ''/tmp/d1'' (''Dockerfile_'' @ ''d1-1'')"
    unfolding xa by (simp add: os_path_join_def)
  have nb: "exec_script_file_name ?wb mock_executor
              \<noteq> os_path_join ''/tmp/d1'' (''Dockerfile_'' @ ''d1-1'')"
    unfolding xb by (simp add: os_path_join_def)
  note t = recipe_names_temporary_file
             [OF mock_packaging_returns(1) mock_packaging_returns(2) na nb,
              of "[''x'']" "[(''k'', ''v'')]" "[''x'']" "[(''k'', ''v'')]"]
  note t1 = t [unfolded xa xb, THEN conjunct1]
    and t2 = t [unfolded xa xb, THEN conjunct2, THEN conjunct1]
    and t5 = t [unfolded xa xb, THEN conjunct2, THEN conjunct2, THEN conjunct2, THEN conjunct2,
                THEN conjunct1]
    and t6 = t [unfolded xa xb, THEN conjunct2, THEN conjunct2, THEN conjunct2, THEN conjunct2,
                THEN conjunct2]
  have d: "os_path_basename ''/tmp/covalent/tmpxx.py'' \<noteq> os_path_basename ''/tmp/covalent/tmpxxx.py''"
    by (simp add: os_path_basename_def)
  from t5 d have 3: "map_option image_dockerfile
     (docker_images (snd (package_and_upload mock_libs mock_executor ''f'' ''d1-1'' ''/tmp/d1''
        ''result-d1-1.pkl'' [''x''] [(''k'', ''v'')] world0)) ''d1-1'')
     \<noteq> map_option image_dockerfile
     (docker_images (snd (package_and_upload mock_libs mock_executor ''f'' ''d1-1'' ''/tmp/d1''
        ''result-d1-1.pkl'' [''x''] [(''k'', ''v'')] ?wb)) ''d1-1'')"
    by blast
  from t6 have 4: "Option.bind
     (docker_images (snd (package_and_upload mock_libs mock_executor ''f'' ''d1-1'' ''/tmp/d1''
        ''result-d1-1.pkl'' [''x''] [(''k'', ''v'')] world0)) ''d1-1'')
     (\<lambda>i. image_context i ''/tmp/covalent/tmpxx.py'')
     = Option.bind
     (docker_images (snd (package_and_upload mock_libs mock_executor ''f'' ''d1-1'' ''/tmp/d1''
        ''result-d1-1.pkl'' [''x''] [(''k'', ''v'')] ?wb)) ''d1-1'')
     (\<lambda>i. image_context i ''/tmp/covalent/tmpxxx.py'')"
    by blast
  from t1 t2 3 4 show ?thesis by blast
qed

text \<open>
  Two runs that package the same callable with the same arguments, image tag and
  executor, in worlds that differ only in the names \<^verbatim>\<open>tempfile\<close> hands out, build
  their images from different Dockerfile texts.
\<close>

theorem recipe_differs_between_runs:
  "map_option image_dockerfile
     (docker_images (snd (package_and_upload mock_libs mock_executor ''f'' ''d1-1'' ''/tmp/d1''
        ''result-d1-1.pkl'' [''1''] [] world0)) ''d1-1'')
   \<noteq> map_option image_dockerfile
     (docker_images (snd (package_and_upload mock_libs mock_executor ''f'' ''d1-1'' ''/tmp/d1''
        ''result-d1-1.pkl'' [''1''] []
        (world0\<lparr>tmp_stem := (\<lambda>n. replicate (Suc n) CHR ''y'')\<rparr>))) ''d1-1'')"
proof -
  let ?wy = "world0\<lparr>tmp_stem := (\<lambda>n. replicate (Suc n) CHR ''y'')\<rparr>"
  have xa: "exec_script_file_name world0 mock_executor = ''/tmp/covalent/tmpxx.py''"
    by (simp add: world0_def mock_executor_def tmp_name_def os_path_join_def)
  have xy: "exec_script_file_name ?wy mock_executor = ''/tmp/covalent/tmpyy.py''"
    by (simp add: world0_def mock_executor_def tmp_name_def os_path_join_def)
  have x: "map_option image_dockerfile
     (docker_images (snd (package_and_upload mock_libs mock_executor ''f'' ''d1-1'' ''/tmp/d1''
        ''result-d1-1.pkl'' [''1''] [] world0)) ''d1-1'')
     = Some (format_dockerfile (exec_script_file_name world0 mock_executor) ''/opt/ml/code'')"
    by (rule package_and_upload_image [OF mock_packaging_returns(1), THEN conjunct1])
       (simp add: world0_def mock_executor_def tmp_name_def os_path_join_def)
  have y: "map_option image_dockerfile
     (docker_images (snd (package_and_upload mock_libs mock_executor ''f'' ''d1-1'' ''/tmp/d1''
        ''result-d1-1.pkl'' [''1''] [] ?wy)) ''d1-1'')
     = Some (format_dockerfile (exec_script_file_name ?wy mock_executor) ''/opt/ml/code'')"
    by (rule package_and_upload_image [OF mock_packaging_returns(3), THEN conjunct1])
       (simp add: world0_def mock_executor_def tmp_name_def os_path_join_def)
  show ?thesis
    unfolding x y xa xy
    by (simp add: format_dockerfile_eq_iff os_path_basename_def)
qed

section \<open>The whole pipeline on one run\<close>

text \<open>
  The scenario of the specification, from the identity lookup to the logs: the job is
  queued, runs and completes, its result \<open>hello world\<close> is in the bucket and its log
  stream has one event.
\<close>

lemma execute_end_to_end:
  "\<exists>built.
   map_option image_dockerfile (built ''d1-1'')
     = Some (format_dockerfile ''/tmp/covalent/tmpxx.py'' ''/opt/ml/code'') \<and>
   execute mock_libs mock_executor ''f'' [] [] ''d1'' ''/tmp'' 1
     ((retrieval_world ''hello world'' (\<lambda>p. [''stream'']) (\<lambda>s. [''mock_logs'']))
        \<lparr>get_job_answers := [answer ''QUEUED'', answer ''RUNNING'', answer ''COMPLETED'']\<rparr>)
   = (Inr (Some ''hello world'', ''mock_logs\<newline>'', Str []),
      (retrieval_world ''hello world'' (\<lambda>p. [''stream'']) (\<lambda>s. [''mock_logs'']))
        \<lparr>environ := [''AWS_SHARED_CREDENTIALS_FILE'' \<mapsto> ''mock_credentials'',
                      ''AWS_PROFILE'' \<mapsto> ''mock_profile''],
          files := [''/tmp/d1/Dockerfile_d1-1'' \<mapsto>
                      format_dockerfile ''/tmp/covalent/tmpxx.py'' ''/opt/ml/code''],
          s3_objects := [(''mock_s3_bucket_name'', ''result-d1-1.pkl'') \<mapsto> ''hello world'',
                         (''mock_s3_bucket_name'', ''func-d1-1.pkl'') \<mapsto> ''f''],
          docker_images := built,
          tmp_count := 3,
          calls :=
            [StsGetCallerIdentity,
             Mkdir ''/tmp/covalent'',
             NamedTemporaryFile ''/tmp/covalent'' [],
             S3UploadFile ''/tmp/covalent/tmpx'' ''mock_s3_bucket_name'' ''func-d1-1.pkl'',
             NamedTemporaryFile ''/tmp/covalent'' ''.py'',
             NamedTemporaryFile ''/tmp/covalent'' [],
             ShutilCopyfile ''/tmp/covalent/tmpxxx'' ''/tmp/d1/Dockerfile_d1-1'',
             DockerBuild ''/tmp/covalent'' ''/tmp/covalent/tmpxxx'' ''d1-1'',
             EcrGetAuthorizationToken,
             DockerLogin ''AWS'' ''secret'' ''https://123.dkr.ecr.amazonaws.com'',
             DockerImageTag ''123.dkr.ecr.amazonaws.com/covalent-braket-job-images:d1-1'' ''d1-1'',
             DockerPush ''123.dkr.ecr.amazonaws.com/covalent-braket-job-images:d1-1'' ''d1-1'',
             BraketCreateJob
               \<lparr>containerImage_uri = ''123.dkr.ecr.amazonaws.com/covalent-braket-job-images:d1-1'',
                checkpointConfig_s3Uri = ''s3://mock_s3_bucket_name/checkpoints/d1-1'',
                deviceConfig_device = ''mock_device'',
                instanceType = ''mock_device'',
                volumeSizeInGb = 1,
                jobName = ''covalent-d1-1'',
                outputDataConfig_s3Path = ''s3://mock_s3_bucket_name/braket/d1-1'',
                roleArn = ''arn:aws:iam::123:role/mock_role_name'',
                maxRuntimeInSeconds = 1\<rparr>,
             BraketGetJob ''arn:job/1'', TimeSleep 1,
             BraketGetJob ''arn:job/1'', TimeSleep 1,
             BraketGetJob ''arn:job/1'',
             S3DownloadFile ''mock_s3_bucket_name'' ''result-d1-1.pkl'' ''/tmp/d1/result-d1-1.pkl'',
             LogsDescribeLogStreams ''/aws/braket/jobs'' ''covalent-{image_tag}'',
             LogsGetLogEvents ''/aws/braket/jobs'' ''stream''],
          get_job_answers := []\<rparr>)"
  by (simp add: execute_def package_and_upload_def query_result_def poll_braket_job_def
                poll_while.simps get_status_def braket_get_job_def time_sleep_def
                os_environ_set_def image_tag_of_def str_int_1 remove_scheme remove_user
                Let_def andthen_def with_named_temporary_file_def tmp_name_def
                s3_upload_file_def s3_download_file_def external_def write_file_def
                open_read_def os_remove_def shutil_copyfile_def docker_images_build_def
                raise_def ret_def
                sts_get_caller_identity_def braket_create_job_def app_log_warning_def
                logs_describe_log_streams_def logs_get_log_events_def os_path_join_def
                retrieval_world_def world0_def mock_libs_def mock_executor_def answer_def
                fun_upd_twist)

end
